theory Spec2Isabelle
  imports Complex_Main "HOL-Library.Log_Nat"
begin

section \<open>Row source: the tables the health checks read\<close>

text \<open>
  The two scripts \<^verbatim>\<open>scripts/tenant-health-production.js\<close> (class ProductionTenantHealth)
  and \<^verbatim>\<open>tenant-health-monitor.js\<close> (class TenantHealthMonitor, the first file of
  \<^verbatim>\<open>unnamed/part_000\<close>) read three tables through SQL. The schema of the tables is not part
  of the repository; they are modelled as lists of records holding the columns the queries
  mention.
  \<^item> \<open>tenants.id\<close> is taken to be the primary key, so a \<^verbatim>\<open>GROUP BY t.id, ...\<close> has one
    group per tenant row.
  \<^item> The columns \<^verbatim>\<open>id\<close>, \<^verbatim>\<open>tenant_id\<close>, \<^verbatim>\<open>status\<close> and \<^verbatim>\<open>api_calls_count\<close> of the child
    tables are taken to hold no NULL.
  \<^item> \<open>limits\<close> is a JSON object; \<^verbatim>\<open>limits->>'users'\<close> is the text of the value or NULL.
    The values are taken to be JSON integers in the range of \<^verbatim>\<open>int\<close>, so the text is
    \<^verbatim>\<open>'-1'\<close> exactly when the value is \<open>-1\<close> and the cast \<^verbatim>\<open>::int\<close> returns the value;
    \<open>None\<close> is an absent key.
  \<^item> Counts and sums are unbounded integers: the overflow of \<^verbatim>\<open>bigint\<close> is out of reach.
  \<^item> Dates are day numbers.
\<close>

record tenant =
  tn_id :: int
  tn_name :: string
  tn_plan :: string
  tn_status :: string
  tn_limit_users :: "int option"
  tn_limit_apiCalls :: "int option"

record tenant_user =
  tu_id :: int
  tu_tenant_id :: int
  tu_status :: string

record usage_stat =
  tus_tenant_id :: int
  tus_api_calls_count :: int
  tus_stat_date :: int

record database =
  tenants :: "tenant list"
  tenant_users :: "tenant_user list"
  tenant_usage_stats :: "usage_stat list"
  current_date :: int

datatype utilization_status = UNLIMITED | OK | HIGH | EXCEEDED

text \<open>The order in which the statuses escalate, used to state monotonicity.\<close>

fun severity :: "utilization_status \<Rightarrow> nat" where
  "severity UNLIMITED = 0"
| "severity OK = 1"
| "severity HIGH = 2"
| "severity EXCEEDED = 3"

text \<open>\<^verbatim>\<open>WHERE t.status = 'active'\<close>\<close>

definition active_tenants :: "database \<Rightarrow> tenant list" where
  "active_tenants d = filter (\<lambda>t. tn_status t = ''active'') (tenants d)"

text \<open>
  \<^verbatim>\<open>X LEFT JOIN Y ON ...\<close> for one row of X: the matching rows of Y, or one NULL-extended
  row when there is none.
\<close>

definition left_join :: "'a list \<Rightarrow> 'a option list" where
  "left_join ms = (case ms of [] \<Rightarrow> [None] | _ \<Rightarrow> map Some ms)"

text \<open>\<^verbatim>\<open>COALESCE(t.limits->>'users', '999999')::int\<close>\<close>

definition coalesce_limit :: "int option \<Rightarrow> int" where
  "coalesce_limit l = (case l of None \<Rightarrow> 999999 | Some n \<Rightarrow> n)"

section \<open>Capacity classifiers\<close>

text \<open>
  Monitor, \<^verbatim>\<open>checkTenantPerformance\<close>: the CASE expression of the columns
  \<^verbatim>\<open>user_status\<close> and \<^verbatim>\<open>api_status\<close>.
  \<^verbatim>\<open>
  CASE WHEN max_users = -1 THEN 'UNLIMITED'
       WHEN user_count >= max_users THEN 'EXCEEDED'
       WHEN user_count > max_users * 0.8 THEN 'HIGH'
       ELSE 'OK' END
  \<close>
  \<^verbatim>\<open>max_users * 0.8\<close> is an exact decimal (numeric) product, modelled in \<open>rat\<close>.
\<close>

definition perf_status :: "int \<Rightarrow> int \<Rightarrow> utilization_status" where
  "perf_status count_v max_v =
     (if max_v = - 1 then UNLIMITED
      else if count_v \<ge> max_v then EXCEEDED
      else if (of_int count_v :: rat) > of_int max_v * (8 / 10) then HIGH
      else OK)"

text \<open>
  Production, \<^verbatim>\<open>checkTenantLimits\<close>: the column \<^verbatim>\<open>capacity_status\<close>.
  \<^verbatim>\<open>
  CASE WHEN t.limits->>'users' = '-1' THEN 'UNLIMITED'
       WHEN COUNT(tu.id) > COALESCE(t.limits->>'users', '999999')::int THEN 'EXCEEDED'
       WHEN COUNT(tu.id) > COALESCE(t.limits->>'users', '999999')::int * 0.9 THEN 'HIGH'
       ELSE 'OK' END
  \<close>
  The first argument is \<^verbatim>\<open>t.limits->>'users'\<close>, the second \<^verbatim>\<open>COUNT(tu.id)\<close>.
\<close>

definition capacity_status :: "int option \<Rightarrow> int \<Rightarrow> utilization_status" where
  "capacity_status l count_v =
     (if l = Some (- 1) then UNLIMITED
      else if count_v > coalesce_limit l then EXCEEDED
      else if (of_int count_v :: rat) > of_int (coalesce_limit l) * (9 / 10) then HIGH
      else OK)"

section \<open>Values as JavaScript prints them\<close>

text \<open>
  The driver returns a \<^verbatim>\<open>COUNT(*)\<close> (bigint) as a decimal string and an \<^verbatim>\<open>int\<close> column
  as a number; a template literal prints both in decimal.
\<close>

definition digit_char :: "nat \<Rightarrow> char" where
  "digit_char d = ''0123456789'' ! d"

function show_nat :: "nat \<Rightarrow> string" where
  "show_nat n = (if n < 10 then [digit_char n] else show_nat (n div 10) @ [digit_char (n mod 10)])"
  by pat_completeness auto
termination
  by (relation "measure (\<lambda>n. n)") auto

declare show_nat.simps [simp del]

definition show_int :: "int \<Rightarrow> string" where
  "show_int i = (if i < 0 then ''-'' @ show_nat (nat (- i)) else show_nat (nat i))"

text \<open>\<^verbatim>\<open>Array.prototype.join\<close>\<close>

fun join_with :: "string \<Rightarrow> string list \<Rightarrow> string" where
  "join_with sep [] = []"
| "join_with sep [x] = x"
| "join_with sep (x # y # ys) = x @ sep @ join_with sep (y # ys)"

text \<open>The character U+221E, written by the scripts for an unlimited limit, in UTF-8.\<close>

definition infinity_symbol :: string where
  "infinity_symbol = [CHR 0xE2, CHR 0x88, CHR 0x9E]"

section \<open>The float8 arithmetic of the database\<close>

text \<open>
  PostgreSQL's \<^verbatim>\<open>float8\<close> is IEEE 754 binary64 with rounding to the nearest value, ties to
  the even one. The values are modelled as rationals: \<open>float8 x\<close> is the binary64 value
  nearest to \<open>x\<close>, that is \<open>x\<close> rounded to 53 significant bits. The exponent has no bound
  here: counts and limits of any realistic size stay far inside the exponent range of
  binary64, where the model computes what the hardware does.
\<close>

text \<open>\<^verbatim>\<open>rint\<close>: the nearest integer, ties to the even one.\<close>

definition rint :: "rat \<Rightarrow> int" where
  "rint x =
     (let f = \<lfloor>x\<rfloor>; d = x - of_int f
      in if d < 1 / 2 then f else if 1 / 2 < d then f + 1 else if even f then f else f + 1)"

text \<open>For \<open>x > 0\<close>, the exponent \<open>k\<close> with \<open>2 ^ k \<le> x < 2 ^ (k + 1)\<close>.\<close>

definition binary_exponent :: "rat \<Rightarrow> int" where
  "binary_exponent x = (if 1 \<le> x then bitlen \<lfloor>x\<rfloor> - 1 else - bitlen (\<lceil>1 / x\<rceil> - 1))"

definition float8 :: "rat \<Rightarrow> rat" where
  "float8 x =
     (if x = 0 then 0
      else (let ulp = power_int 2 (binary_exponent \<bar>x\<bar> - 52)
            in of_int (rint (x / ulp)) * ulp))"

text \<open>
  \<^verbatim>\<open>(count::float / max) * 100\<close> rounded by \<^verbatim>\<open>rint\<close>, the first step of the cast to
  \<^verbatim>\<open>INTEGER\<close>: the count is converted to float8, the division and the multiplication each
  round their result; \<^verbatim>\<open>max\<close> and \<open>100\<close> are of type \<^verbatim>\<open>int\<close>, which float8 holds exactly.
\<close>

definition float8_percent :: "int \<Rightarrow> int \<Rightarrow> int" where
  "float8_percent c m = rint (float8 (float8 (float8 (of_int c) / of_int m) * 100))"

section \<open>The environment of one run\<close>

text \<open>
  Every \<^verbatim>\<open>await this.db.query(...)\<close> either returns rows or rejects. The environment holds
  the tables and, for the connection, for each query and for \<^verbatim>\<open>db.end()\<close>, the message of
  the error it rejects with, if it does.

  One part of the monitor lies outside the tables and is a parameter: \<open>service_alerts\<close> are
  the alerts that \<^verbatim>\<open>checkServiceHealth\<close> pushes after probing the HTTP services.
\<close>

datatype query =
    IsolationQ | CapacityQ | ActiveCountQ | OrphanQ
  | LeakageQ | OrphansQ | PerfQ | TenantsQ

datatype db_call = Connect | Query query | End

datatype alert_level = CRITICAL | WARNING

record alert =
  a_type :: alert_level
  a_service :: string
  a_message :: string

record environment =
  db :: database
  connect_error :: "string option"
  query_error :: "query \<Rightarrow> string option"
  end_error :: "string option"
  service_alerts :: "alert list"

definition db_query :: "environment \<Rightarrow> query \<Rightarrow> 'a \<Rightarrow> string + 'a" where
  "db_query e q rows = (case query_error e q of Some m \<Rightarrow> Inl m | None \<Rightarrow> Inr rows)"

text \<open>
  \<^verbatim>\<open>process.exit(isHealthy ? 0 : 1)\<close> in \<^verbatim>\<open>then\<close>, \<^verbatim>\<open>process.exit(1)\<close> in \<^verbatim>\<open>catch\<close>:
  the main block of both scripts.
\<close>

fun process_exit :: "string + bool \<Rightarrow> nat" where
  "process_exit (Inr isHealthy) = (if isHealthy then 0 else 1)"
| "process_exit (Inl error_message) = 1"

text \<open>
  Rows of a child table with no parent:
  \<^verbatim>\<open>FROM child c LEFT JOIN tenants t ON c.tenant_id = t.id WHERE t.id IS NULL\<close>,
  counted by \<^verbatim>\<open>COUNT(*)\<close>. The argument is the column \<^verbatim>\<open>tenant_id\<close> of the child table.
\<close>

definition orphan_count :: "tenant list \<Rightarrow> int list \<Rightarrow> nat" where
  "orphan_count ts child_tenant_ids =
     length (filter (\<lambda>j. j = None)
       (concat (map (\<lambda>c. left_join (filter (\<lambda>t. tn_id t = c) ts)) child_tenant_ids)))"

text \<open>\<^verbatim>\<open>COUNT(tu.id)\<close> over joined rows: the rows whose \<^verbatim>\<open>tu\<close> part is not NULL.\<close>

definition count_joined :: "'a option list \<Rightarrow> nat" where
  "count_joined js = length (filter (\<lambda>j. j \<noteq> None) js)"

section \<open>ProductionTenantHealth\<close>

text \<open>
  The object holds \<^verbatim>\<open>this.issues\<close>. \<open>calls\<close> is not a field of the object: it records
  the calls made on \<^verbatim>\<open>this.db\<close>, in order, so that theorems can say which checks ran.
\<close>

record production =
  issues :: "string list"
  calls :: "db_call list"

text \<open>\<^verbatim>\<open>constructor() { this.db = null; this.issues = []; }\<close>\<close>

definition new_ProductionTenantHealth :: production where
  "new_ProductionTenantHealth = \<lparr>issues = [], calls = []\<rparr>"

subsection \<open>checkTenantIsolation\<close>

record isolation_row =
  ir_tenant_name :: string
  ir_user_count :: nat
  ir_isolation_violations :: nat

text \<open>
  One group of the CTE \<^verbatim>\<open>tenant_data_integrity\<close>:
  \<^verbatim>\<open>
  SELECT t.name, COUNT(tu.id), COUNT(CASE WHEN tu.tenant_id != t.id THEN 1 END)
  FROM tenants t LEFT JOIN tenant_users tu ON tu.tenant_id = t.id
  WHERE t.status = 'active' GROUP BY t.id, t.name
  \<close>
  A comparison with the NULL of a NULL-extended row is not true.
\<close>

definition tenant_data_integrity :: "database \<Rightarrow> tenant \<Rightarrow> isolation_row" where
  "tenant_data_integrity d t =
     (let joined = left_join (filter (\<lambda>tu. tu_tenant_id tu = tn_id t) (tenant_users d))
      in \<lparr>ir_tenant_name = tn_name t,
          ir_user_count = count_joined joined,
          ir_isolation_violations =
            length (filter (\<lambda>j. case j of None \<Rightarrow> False | Some tu \<Rightarrow> tu_tenant_id tu \<noteq> tn_id t)
              joined)\<rparr>)"

text \<open>\<^verbatim>\<open>SELECT ... FROM tenant_data_integrity WHERE isolation_violations > 0\<close>\<close>

definition isolation_rows :: "database \<Rightarrow> isolation_row list" where
  "isolation_rows d =
     filter (\<lambda>r. ir_isolation_violations r > 0) (map (tenant_data_integrity d) (active_tenants d))"

definition checkTenantIsolation :: "environment \<Rightarrow> production \<Rightarrow> bool \<times> production" where
  "checkTenantIsolation e s =
     (let s1 = s\<lparr>calls := calls s @ [Query IsolationQ]\<rparr>
      in case db_query e IsolationQ (isolation_rows (db e)) of
           Inr rows \<Rightarrow>
             if length rows = 0 then (True, s1)
             else (False,
               s1\<lparr>issues := issues s1 @
                 map (\<lambda>row. ''Tenant isolation violation: '' @ ir_tenant_name row) rows\<rparr>)
         | Inl message \<Rightarrow>
             (False, s1\<lparr>issues := issues s1 @ [''Isolation check failure: '' @ message]\<rparr>))"

subsection \<open>checkTenantLimits\<close>

record capacity_row =
  cr_name :: string
  cr_plan :: string
  cr_current_users :: nat
  cr_max_users :: int
  cr_capacity_status :: utilization_status

text \<open>
  One group of the CTE \<^verbatim>\<open>tenant_capacity\<close>; the join is
  \<^verbatim>\<open>LEFT JOIN tenant_users tu ON tu.tenant_id = t.id AND tu.status = 'active'\<close>.
\<close>

definition tenant_capacity :: "database \<Rightarrow> tenant \<Rightarrow> capacity_row" where
  "tenant_capacity d t =
     (let joined = left_join
            (filter (\<lambda>tu. tu_tenant_id tu = tn_id t \<and> tu_status tu = ''active'') (tenant_users d));
          current_users = count_joined joined
      in \<lparr>cr_name = tn_name t,
          cr_plan = tn_plan t,
          cr_current_users = current_users,
          cr_max_users = coalesce_limit (tn_limit_users t),
          cr_capacity_status = capacity_status (tn_limit_users t) (int current_users)\<rparr>)"

text \<open>
  \<^verbatim>\<open>ORDER BY CASE capacity_status WHEN 'EXCEEDED' THEN 1 WHEN 'HIGH' THEN 2 ELSE 3 END\<close>.
  The order of rows with equal keys is left open by SQL; the model keeps the table's.
\<close>

fun capacity_order :: "utilization_status \<Rightarrow> nat" where
  "capacity_order EXCEEDED = 1"
| "capacity_order HIGH = 2"
| "capacity_order other = 3"

definition capacity_rows :: "database \<Rightarrow> capacity_row list" where
  "capacity_rows d =
     sort_key (\<lambda>r. capacity_order (cr_capacity_status r)) (map (tenant_capacity d) (active_tenants d))"

text \<open>
  The body of \<^verbatim>\<open>capacityCheck.rows.forEach\<close>, on
  \<open>(this.issues, exceededCount, warningCount, healthyCount)\<close>.
\<close>

definition capacity_step ::
  "capacity_row \<Rightarrow> string list \<times> nat \<times> nat \<times> nat \<Rightarrow> string list \<times> nat \<times> nat \<times> nat" where
  "capacity_step tenant acc =
     (case acc of (iss, exceededCount, warningCount, healthyCount) \<Rightarrow>
        if cr_capacity_status tenant = EXCEEDED
        then (iss @ [''Tenant capacity exceeded: '' @ cr_name tenant],
              exceededCount + 1, warningCount, healthyCount)
        else if cr_capacity_status tenant = HIGH
        then (iss, exceededCount, warningCount + 1, healthyCount)
        else (iss, exceededCount, warningCount, healthyCount + 1))"

definition checkTenantLimits :: "environment \<Rightarrow> production \<Rightarrow> bool \<times> production" where
  "checkTenantLimits e s =
     (let s1 = s\<lparr>calls := calls s @ [Query CapacityQ]\<rparr>
      in case db_query e CapacityQ (capacity_rows (db e)) of
           Inr rows \<Rightarrow>
             (case fold capacity_step rows (issues s1, 0, 0, 0) of
                (iss, exceededCount, warningCount, healthyCount) \<Rightarrow>
                  (exceededCount = 0, s1\<lparr>issues := iss\<rparr>))
         | Inl message \<Rightarrow>
             (False, s1\<lparr>issues := issues s1 @ [''Capacity check failure: '' @ message]\<rparr>))"

subsection \<open>checkDatabaseHealth\<close>

text \<open>
  \<^verbatim>\<open>SELECT COUNT(*) as count FROM tenants WHERE status = 'active'\<close>, then the orphan count of
  \<^verbatim>\<open>tenant_users\<close>. A positive orphan count is only printed as a warning: both branches
  fall through to \<^verbatim>\<open>return true\<close>.
\<close>

definition checkDatabaseHealth :: "environment \<Rightarrow> production \<Rightarrow> bool \<times> production" where
  "checkDatabaseHealth e s =
     (let s1 = s\<lparr>calls := calls s @ [Query ActiveCountQ]\<rparr>
      in case db_query e ActiveCountQ (length (active_tenants (db e))) of
           Inl message \<Rightarrow>
             (False, s1\<lparr>issues := issues s1 @ [''Database health failure: '' @ message]\<rparr>)
         | Inr activeTenants \<Rightarrow>
             if activeTenants > 0 then
               (let s2 = s1\<lparr>calls := calls s1 @ [Query OrphanQ]\<rparr>
                in case db_query e OrphanQ
                       (orphan_count (tenants (db e)) (map tu_tenant_id (tenant_users (db e)))) of
                     Inl message \<Rightarrow>
                       (False,
                        s2\<lparr>issues := issues s2 @ [''Database health failure: '' @ message]\<rparr>)
                   | Inr orphanCount \<Rightarrow> (True, s2))
             else (False, s1\<lparr>issues := issues s1 @ [''No active tenants in database'']\<rparr>))"

subsection \<open>generateProductionReport, runProductionHealthCheck and the main block\<close>

text \<open>\<^verbatim>\<open>const criticalIssues = this.issues.length; if (criticalIssues === 0) return true\<close>\<close>

definition generateProductionReport :: "production \<Rightarrow> bool" where
  "generateProductionReport s = (length (issues s) = 0)"

text \<open>
  \<^verbatim>\<open>await this.connect()\<close> stands before the \<^verbatim>\<open>try\<close>: when it rejects, nothing else runs.
  \<^verbatim>\<open>await this.disconnect()\<close> stands in \<^verbatim>\<open>finally\<close>: when it rejects, the promise rejects.
\<close>

definition runProductionHealthCheck ::
  "environment \<Rightarrow> production \<Rightarrow> (string + bool) \<times> production" where
  "runProductionHealthCheck e s =
     (let s0 = s\<lparr>calls := calls s @ [Connect]\<rparr>
      in case connect_error e of
           Some message \<Rightarrow> (Inl message, s0)
         | None \<Rightarrow>
             (case checkTenantIsolation e s0 of (isolationHealthy, s1) \<Rightarrow>
              case checkTenantLimits e s1 of (capacityHealthy, s2) \<Rightarrow>
              case checkDatabaseHealth e s2 of (databaseHealthy, s3) \<Rightarrow>
                (let productionReady = generateProductionReport s3;
                     s4 = s3\<lparr>calls := calls s3 @ [End]\<rparr>
                 in case end_error e of
                      Some message \<Rightarrow> (Inl message, s4)
                    | None \<Rightarrow> (Inr productionReady, s4))))"

definition production_main :: "environment \<Rightarrow> nat" where
  "production_main e = process_exit (fst (runProductionHealthCheck e new_ProductionTenantHealth))"

section \<open>TenantHealthMonitor\<close>

text \<open>
  The object holds \<^verbatim>\<open>this.healthMetrics.alerts\<close> (the fields \<^verbatim>\<open>tenants\<close> and
  \<^verbatim>\<open>services\<close> of \<^verbatim>\<open>healthMetrics\<close> are never written, and the \<^verbatim>\<open>timestamp\<close> of an
  alert, a reading of the clock, is left out). \<open>mcalls\<close> records the calls on \<^verbatim>\<open>this.db\<close>.
\<close>

record monitor =
  alerts :: "alert list"
  mcalls :: "db_call list"

definition new_TenantHealthMonitor :: monitor where
  "new_TenantHealthMonitor = \<lparr>alerts = [], mcalls = []\<rparr>"

subsection \<open>checkTenantIsolation\<close>

text \<open>
  A row of the leakage query is an object whose properties are the columns of the query.
  Reading a property that the object does not have gives \<^verbatim>\<open>undefined\<close>, so these rows are
  modelled as association lists from property names to values.
\<close>

datatype property =
    P_tenant_id | P_tenant_name | P_mismatched_users | P_mismatched_usage
  | P_mismatched_subscriptions

datatype js_value = JsString string | JsNumber int | JsUndefined

type_synonym js_object = "(property \<times> js_value) list"

definition js_get :: "js_object \<Rightarrow> property \<Rightarrow> js_value" where
  "js_get obj p = (case map_of obj p of None \<Rightarrow> JsUndefined | Some v \<Rightarrow> v)"

text \<open>A value inside a template literal.\<close>

fun js_to_string :: "js_value \<Rightarrow> string" where
  "js_to_string (JsString s) = s"
| "js_to_string (JsNumber n) = show_int n"
| "js_to_string JsUndefined = ''undefined''"

text \<open>
  One group of the CTE \<^verbatim>\<open>tenant_data_counts\<close>: the counts \<^verbatim>\<open>mismatched_users\<close> and
  \<^verbatim>\<open>mismatched_usage\<close> over
  \<^verbatim>\<open>
  tenants t LEFT JOIN tenant_users tu ON tu.tenant_id = t.id
            LEFT JOIN tenant_usage_stats tus ON tus.tenant_id = t.id
  \<close>
\<close>

definition tenant_data_counts :: "database \<Rightarrow> tenant \<Rightarrow> nat \<times> nat" where
  "tenant_data_counts d t =
     (let joined = List.product
            (left_join (filter (\<lambda>tu. tu_tenant_id tu = tn_id t) (tenant_users d)))
            (left_join (filter (\<lambda>tus. tus_tenant_id tus = tn_id t) (tenant_usage_stats d)))
      in (length (filter (\<lambda>(u, s). case u of None \<Rightarrow> False | Some tu \<Rightarrow> tu_tenant_id tu \<noteq> tn_id t)
            joined),
          length (filter (\<lambda>(u, s). case s of None \<Rightarrow> False | Some tus \<Rightarrow> tus_tenant_id tus \<noteq> tn_id t)
            joined)))"

text \<open>The columns of \<^verbatim>\<open>SELECT * FROM tenant_data_counts\<close>, as the driver returns them.\<close>

definition leakage_row :: "int \<Rightarrow> string \<Rightarrow> nat \<Rightarrow> nat \<Rightarrow> js_object" where
  "leakage_row tenant_id tenant_name mismatched_users mismatched_usage =
     [(P_tenant_id, JsNumber tenant_id),
      (P_tenant_name, JsString tenant_name),
      (P_mismatched_users, JsString (show_nat mismatched_users)),
      (P_mismatched_usage, JsString (show_nat mismatched_usage))]"

text \<open>\<^verbatim>\<open>WHERE mismatched_users > 0 OR mismatched_usage > 0\<close>\<close>

definition leakage_rows :: "database \<Rightarrow> js_object list" where
  "leakage_rows d =
     map (\<lambda>t. case tenant_data_counts d t of (mu, ms) \<Rightarrow> leakage_row (tn_id t) (tn_name t) mu ms)
       (filter (\<lambda>t. case tenant_data_counts d t of (mu, ms) \<Rightarrow> mu > 0 \<or> ms > 0)
         (active_tenants d))"

text \<open>
  \<^verbatim>\<open>
  `Tenant ${row.tenant_name}: ${row.mismatched_users} user violations, ` +
  `${row.mismatched_subscriptions} subscription violations`
  \<close>
\<close>

definition leakage_message :: "js_object \<Rightarrow> string" where
  "leakage_message row =
     ''Tenant '' @ js_to_string (js_get row P_tenant_name) @ '': '' @
     js_to_string (js_get row P_mismatched_users) @ '' user violations, '' @
     js_to_string (js_get row P_mismatched_subscriptions) @ '' subscription violations''"

record orphan_row =
  or_table_name :: string
  or_orphan_count :: nat

text \<open>The two rows of the \<^verbatim>\<open>UNION ALL\<close> of the orphan query.\<close>

definition orphan_rows :: "database \<Rightarrow> orphan_row list" where
  "orphan_rows d =
     [\<lparr>or_table_name = ''tenant_users'',
       or_orphan_count = orphan_count (tenants d) (map tu_tenant_id (tenant_users d))\<rparr>,
      \<lparr>or_table_name = ''tenant_usage_stats'',
       or_orphan_count = orphan_count (tenants d) (map tus_tenant_id (tenant_usage_stats d))\<rparr>]"

text \<open>\<^verbatim>\<open>`${row.orphan_count} orphaned records in ${row.table_name} table`\<close>\<close>

definition orphan_message :: "orphan_row \<Rightarrow> string" where
  "orphan_message row =
     show_nat (or_orphan_count row) @ '' orphaned records in '' @ or_table_name row @ '' table''"

definition isolation_alert :: "string list \<Rightarrow> alert" where
  "isolation_alert violations =
     \<lparr>a_type = CRITICAL, a_service = ''Database'',
      a_message = ''Tenant isolation violations: '' @ join_with '', '' violations\<rparr>"

text \<open>
  \<^verbatim>\<open>violations\<close> is a local array. The alert is pushed inside the \<^verbatim>\<open>try\<close>; the
  \<^verbatim>\<open>catch\<close> only adds a message to \<^verbatim>\<open>violations\<close>.
\<close>

definition mon_checkTenantIsolation :: "environment \<Rightarrow> monitor \<Rightarrow> string list \<times> monitor" where
  "mon_checkTenantIsolation e s =
     (let s1 = s\<lparr>mcalls := mcalls s @ [Query LeakageQ]\<rparr>
      in case db_query e LeakageQ (leakage_rows (db e)) of
           Inl message \<Rightarrow> ([''Isolation check failed: '' @ message], s1)
         | Inr rows \<Rightarrow>
             (let violations1 = map leakage_message rows;
                  s2 = s1\<lparr>mcalls := mcalls s1 @ [Query OrphansQ]\<rparr>
              in case db_query e OrphansQ (orphan_rows (db e)) of
                   Inl message \<Rightarrow> (violations1 @ [''Isolation check failed: '' @ message], s2)
                 | Inr orows \<Rightarrow>
                     (let violations = violations1 @
                            map orphan_message (filter (\<lambda>row. or_orphan_count row > 0) orows)
                      in if length violations = 0 then (violations, s2)
                         else (violations,
                               s2\<lparr>alerts := alerts s2 @ [isolation_alert violations]\<rparr>))))"

subsection \<open>checkTenantPerformance\<close>

record metrics =
  m_name :: string
  m_plan :: string
  m_user_count :: nat
  m_api_calls_count :: int
  m_max_users :: int
  m_max_api_calls :: int

text \<open>
  One group of the CTE \<^verbatim>\<open>tenant_metrics\<close>. Both joins hang on the tenant, so the rows
  of a group are the pairs of a user row and a usage row (each NULL-extended when there is
  none); \<^verbatim>\<open>COUNT(tu.id)\<close> and \<^verbatim>\<open>COALESCE(SUM(tus.api_calls_count), 0)\<close> run over these pairs.
\<close>

definition tenant_metrics :: "database \<Rightarrow> tenant \<Rightarrow> metrics" where
  "tenant_metrics d t =
     (let joined = List.product
            (left_join
              (filter (\<lambda>tu. tu_tenant_id tu = tn_id t \<and> tu_status tu = ''active'') (tenant_users d)))
            (left_join
              (filter (\<lambda>tus. tus_tenant_id tus = tn_id t \<and> tus_stat_date tus \<ge> current_date d - 30)
                (tenant_usage_stats d)))
      in \<lparr>m_name = tn_name t,
          m_plan = tn_plan t,
          m_user_count = length (filter (\<lambda>(u, s). u \<noteq> None) joined),
          m_api_calls_count =
            sum_list (map (\<lambda>(u, s). case s of None \<Rightarrow> 0 | Some tus \<Rightarrow> tus_api_calls_count tus) joined),
          m_max_users = coalesce_limit (tn_limit_users t),
          m_max_api_calls = coalesce_limit (tn_limit_apiCalls t)\<rparr>)"

text \<open>
  \<^verbatim>\<open>CASE WHEN max = -1 THEN 0 ELSE CAST((count::float / max) * 100 AS INTEGER) END\<close>.
  A float8 division by zero raises an error, and so does the cast of a value outside the
  range of \<^verbatim>\<open>INTEGER\<close>; either fails the whole query. The parameter \<open>f8\<close> is the rounded
  product; the query is \<open>utilization float8_percent\<close>.
\<close>

definition utilization :: "(int \<Rightarrow> int \<Rightarrow> int) \<Rightarrow> int \<Rightarrow> int \<Rightarrow> string + int" where
  "utilization f8 count_v max_v =
     (if max_v = - 1 then Inr 0
      else if max_v = 0 then Inl ''division by zero''
      else if - 2147483648 \<le> f8 count_v max_v \<and> f8 count_v max_v < 2147483648
      then Inr (f8 count_v max_v)
      else Inl ''integer out of range'')"

record perf_row =
  pr_name :: string
  pr_plan :: string
  pr_user_count :: nat
  pr_api_calls_count :: int
  pr_max_users :: int
  pr_max_api_calls :: int
  pr_user_utilization :: int
  pr_api_utilization :: int
  pr_user_status :: utilization_status
  pr_api_status :: utilization_status

text \<open>The outer \<^verbatim>\<open>SELECT *, ... FROM tenant_metrics\<close> on one row.\<close>

definition perf_select :: "(int \<Rightarrow> int \<Rightarrow> int) \<Rightarrow> metrics \<Rightarrow> string + perf_row" where
  "perf_select f8 m =
     (case utilization f8 (int (m_user_count m)) (m_max_users m) of
        Inl message \<Rightarrow> Inl message
      | Inr user_utilization \<Rightarrow>
          (case utilization f8 (m_api_calls_count m) (m_max_api_calls m) of
             Inl message \<Rightarrow> Inl message
           | Inr api_utilization \<Rightarrow>
               Inr \<lparr>pr_name = m_name m,
                    pr_plan = m_plan m,
                    pr_user_count = m_user_count m,
                    pr_api_calls_count = m_api_calls_count m,
                    pr_max_users = m_max_users m,
                    pr_max_api_calls = m_max_api_calls m,
                    pr_user_utilization = user_utilization,
                    pr_api_utilization = api_utilization,
                    pr_user_status = perf_status (int (m_user_count m)) (m_max_users m),
                    pr_api_status = perf_status (m_api_calls_count m) (m_max_api_calls m)\<rparr>))"

text \<open>The rows of a query, or the first error raised while computing one.\<close>

fun collect_rows :: "(string + 'a) list \<Rightarrow> string + 'a list" where
  "collect_rows [] = Inr []"
| "collect_rows (x # xs) =
     (case x of
        Inl message \<Rightarrow> Inl message
      | Inr row \<Rightarrow> (case collect_rows xs of Inl message \<Rightarrow> Inl message | Inr rows \<Rightarrow> Inr (row # rows)))"

text \<open>\<^verbatim>\<open>ORDER BY user_count DESC\<close>; rows with equal counts keep the table's order.\<close>

definition perf_rows :: "(int \<Rightarrow> int \<Rightarrow> int) \<Rightarrow> database \<Rightarrow> string + perf_row list" where
  "perf_rows f8 d =
     (case collect_rows (map (\<lambda>t. perf_select f8 (tenant_metrics d t)) (active_tenants d)) of
        Inl message \<Rightarrow> Inl message
      | Inr rows \<Rightarrow> Inr (sort_key (\<lambda>r. - int (pr_user_count r)) rows))"

text \<open>
  \<^verbatim>\<open>
  const userDisplay = tenant.max_users === -1 ? '\<infinity>' : tenant.max_users;
  const userUtil = tenant.user_utilization || 0;
  \<close>
  and the same for the API dimension.
\<close>

definition userDisplay :: "perf_row \<Rightarrow> string" where
  "userDisplay tenant =
     (if pr_max_users tenant = - 1 then infinity_symbol else show_int (pr_max_users tenant))"

definition apiDisplay :: "perf_row \<Rightarrow> string" where
  "apiDisplay tenant =
     (if pr_max_api_calls tenant = - 1 then infinity_symbol else show_int (pr_max_api_calls tenant))"

definition userUtil :: "perf_row \<Rightarrow> int" where
  "userUtil tenant = (if pr_user_utilization tenant \<noteq> 0 then pr_user_utilization tenant else 0)"

definition apiUtil :: "perf_row \<Rightarrow> int" where
  "apiUtil tenant = (if pr_api_utilization tenant \<noteq> 0 then pr_api_utilization tenant else 0)"

text \<open>The line printed for a tenant, after the coloured mark.\<close>

definition tenant_line :: "string \<Rightarrow> perf_row \<Rightarrow> string" where
  "tenant_line label tenant =
     pr_name tenant @ '' - '' @ label @ '': Users: '' @ show_nat (pr_user_count tenant) @ ''/'' @
     userDisplay tenant @ '' ('' @ show_int (userUtil tenant) @ ''%), API: '' @
     show_int (pr_api_calls_count tenant) @ ''/'' @ apiDisplay tenant @ '' ('' @
     show_int (apiUtil tenant) @ ''%)''"

record perf_output =
  po_lines :: "string list"
  po_healthyTenants :: nat
  po_warningTenants :: nat
  po_criticalTenants :: nat

definition exceeded_alert :: "perf_row \<Rightarrow> alert" where
  "exceeded_alert tenant =
     \<lparr>a_type = CRITICAL, a_service = ''Tenant Limits'',
      a_message = ''Tenant '' @ pr_name tenant @ '' has exceeded limits''\<rparr>"

text \<open>The body of \<^verbatim>\<open>perfCheck.rows.forEach\<close>, on the alerts and what has been printed.\<close>

definition perf_step :: "perf_row \<Rightarrow> alert list \<times> perf_output \<Rightarrow> alert list \<times> perf_output" where
  "perf_step tenant acc =
     (case acc of (als, out) \<Rightarrow>
        (let hasExceeded = (pr_user_status tenant = EXCEEDED \<or> pr_api_status tenant = EXCEEDED);
             hasWarning = (pr_user_status tenant = HIGH \<or> pr_api_status tenant = HIGH)
         in if hasExceeded
            then (als @ [exceeded_alert tenant],
                  out\<lparr>po_lines := po_lines out @ [tenant_line ''CRITICAL'' tenant],
                      po_criticalTenants := po_criticalTenants out + 1\<rparr>)
            else if hasWarning
            then (als,
                  out\<lparr>po_lines := po_lines out @ [tenant_line ''WARNING'' tenant],
                      po_warningTenants := po_warningTenants out + 1\<rparr>)
            else (als,
                  out\<lparr>po_lines := po_lines out @ [tenant_line ''OK'' tenant],
                      po_healthyTenants := po_healthyTenants out + 1\<rparr>)))"

text \<open>
  The function returns nothing; the model returns what it prints (the tenant lines and
  the summary counts), or \<open>None\<close> when the query failed, which the \<^verbatim>\<open>catch\<close> only logs.
\<close>

definition checkTenantPerformance :: "environment \<Rightarrow> monitor \<Rightarrow> perf_output option \<times> monitor" where
  "checkTenantPerformance e s =
     (let s1 = s\<lparr>mcalls := mcalls s @ [Query PerfQ]\<rparr>
      in case (case query_error e PerfQ of
                 Some message \<Rightarrow> Inl message
               | None \<Rightarrow> perf_rows float8_percent (db e)) of
           Inl message \<Rightarrow> (None, s1)
         | Inr rows \<Rightarrow>
             (case fold perf_step rows
                     (alerts s1,
                      \<lparr>po_lines = [], po_healthyTenants = 0, po_warningTenants = 0,
                       po_criticalTenants = 0\<rparr>) of
                (als, out) \<Rightarrow> (Some out, s1\<lparr>alerts := als\<rparr>)))"

subsection \<open>checkServiceHealth, generateReport, runFullHealthCheck and the main block\<close>

definition checkServiceHealth :: "environment \<Rightarrow> monitor \<Rightarrow> monitor" where
  "checkServiceHealth e s = s\<lparr>alerts := alerts s @ service_alerts e\<rparr>"

text \<open>
  \<^verbatim>\<open>getTenants\<close> catches a failing query and its result is only printed; the verdict is
  \<^verbatim>\<open>false\<close> exactly when there is a CRITICAL alert.
\<close>

definition generateReport :: "environment \<Rightarrow> monitor \<Rightarrow> bool \<times> monitor" where
  "generateReport e s =
     (let s1 = s\<lparr>mcalls := mcalls s @ [Query TenantsQ]\<rparr>;
          criticalAlerts = length (filter (\<lambda>a. a_type a = CRITICAL) (alerts s1));
          warningAlerts = length (filter (\<lambda>a. a_type a = WARNING) (alerts s1))
      in if criticalAlerts > 0 then (False, s1)
         else if warningAlerts > 0 then (True, s1)
         else (True, s1))"

definition runFullHealthCheck :: "environment \<Rightarrow> monitor \<Rightarrow> (string + bool) \<times> monitor" where
  "runFullHealthCheck e s =
     (let s0 = s\<lparr>mcalls := mcalls s @ [Connect]\<rparr>
      in case connect_error e of
           Some message \<Rightarrow> (Inl message, s0)
         | None \<Rightarrow>
             (case mon_checkTenantIsolation e s0 of (violations, s1) \<Rightarrow>
              case checkTenantPerformance e s1 of (printed, s2) \<Rightarrow>
              case generateReport e (checkServiceHealth e s2) of (isHealthy, s3) \<Rightarrow>
                (let s4 = s3\<lparr>mcalls := mcalls s3 @ [End]\<rparr>
                 in case end_error e of
                      Some message \<Rightarrow> (Inl message, s4)
                    | None \<Rightarrow> (Inr isHealthy, s4))))"

definition monitor_main :: "environment \<Rightarrow> nat" where
  "monitor_main e = process_exit (fst (runFullHealthCheck e new_TenantHealthMonitor))"

section \<open>Example row sources\<close>

definition tenant_acme :: tenant where
  "tenant_acme =
     \<lparr>tn_id = 1, tn_name = ''acme'', tn_plan = ''pro'', tn_status = ''active'',
      tn_limit_users = Some 2, tn_limit_apiCalls = Some 1000\<rparr>"

definition tenant_globex :: tenant where
  "tenant_globex =
     \<lparr>tn_id = 2, tn_name = ''globex'', tn_plan = ''enterprise'', tn_status = ''active'',
      tn_limit_users = Some (- 1), tn_limit_apiCalls = Some (- 1)\<rparr>"

definition user_of :: "int \<Rightarrow> int \<Rightarrow> tenant_user" where
  "user_of i t = \<lparr>tu_id = i, tu_tenant_id = t, tu_status = ''active''\<rparr>"

text \<open>No rows at all.\<close>

definition db_empty :: database where
  "db_empty = \<lparr>tenants = [], tenant_users = [], tenant_usage_stats = [], current_date = 100\<rparr>"

text \<open>acme (2 users allowed) has 2 active users; one more user row points to tenant 99.\<close>

definition db_orphan :: database where
  "db_orphan =
     \<lparr>tenants = [tenant_acme],
      tenant_users = [user_of 1 1, user_of 2 1, user_of 3 99],
      tenant_usage_stats = [], current_date = 100\<rparr>"


text \<open>globex (unlimited) has one active user and 500 API calls yesterday.\<close>

definition db_unlimited :: database where
  "db_unlimited =
     \<lparr>tenants = [tenant_globex],
      tenant_users = [user_of 1 2],
      tenant_usage_stats = [\<lparr>tus_tenant_id = 2, tus_api_calls_count = 500, tus_stat_date = 99\<rparr>],
      current_date = 100\<rparr>"

text \<open>initech (3 users, 40 API calls allowed) has 1 active user and 23 API calls yesterday.\<close>

definition tenant_initech :: tenant where
  "tenant_initech =
     \<lparr>tn_id = 3, tn_name = ''initech'', tn_plan = ''starter'', tn_status = ''active'',
      tn_limit_users = Some 3, tn_limit_apiCalls = Some 40\<rparr>"

definition db_rounding :: database where
  "db_rounding =
     \<lparr>tenants = [tenant_initech],
      tenant_users = [user_of 1 3],
      tenant_usage_stats = [\<lparr>tus_tenant_id = 3, tus_api_calls_count = 23, tus_stat_date = 99\<rparr>],
      current_date = 100\<rparr>"

text \<open>A run in which the connection and every query succeed.\<close>

definition env_ok :: "database \<Rightarrow> environment" where
  "env_ok d =
     \<lparr>db = d, connect_error = None, query_error = (\<lambda>q. None), end_error = None,
      service_alerts = []\<rparr>"


text \<open>A run in which one query rejects with the message \<^verbatim>\<open>boom\<close>.\<close>

definition env_failing :: "database \<Rightarrow> query \<Rightarrow> environment" where
  "env_failing d q =
     \<lparr>db = d, connect_error = None,
      query_error = (\<lambda>q'. if q' = q then Some ''boom'' else None), end_error = None,
      service_alerts = []\<rparr>"

text \<open>A run in which the connection is refused.\<close>

definition env_unreachable :: "database \<Rightarrow> environment" where
  "env_unreachable d =
     \<lparr>db = d, connect_error = Some ''ECONNREFUSED'', query_error = (\<lambda>q. None),
      end_error = None, service_alerts = []\<rparr>"

section \<open>Arithmetic of the warning bounds\<close>

lemma warn_bound_80: "((of_int c :: rat) > of_int m * (8 / 10)) = (4 * m < 5 * c)"
proof -
  have "((of_int c :: rat) > of_int m * (8 / 10)) = ((of_int (4 * m) :: rat) < of_int (5 * c))"
    by (simp add: field_simps)
  also have "\<dots> = (4 * m < 5 * c)"
    by (simp only: of_int_less_iff)
  finally show ?thesis .
qed

lemma warn_bound_90: "((of_int c :: rat) > of_int m * (9 / 10)) = (9 * m < 10 * c)"
proof -
  have "((of_int c :: rat) > of_int m * (9 / 10)) = ((of_int (9 * m) :: rat) < of_int (10 * c))"
    by (simp add: field_simps)
  also have "\<dots> = (9 * m < 10 * c)"
    by (simp only: of_int_less_iff)
  finally show ?thesis .
qed

section \<open>The production checks, one by one\<close>

lemma left_join_filter_Some:
  "filter (\<lambda>j. case j of None \<Rightarrow> False | Some x \<Rightarrow> P x) (left_join xs) = map Some (filter P xs)"
  by (cases xs) (simp_all add: left_join_def filter_map comp_def)

lemma isolation_violations_zero: "ir_isolation_violations (tenant_data_integrity d t) = 0"
  by (simp add: tenant_data_integrity_def Let_def left_join_filter_Some)

lemma isolation_rows_empty: "isolation_rows d = []"
  by (simp add: isolation_rows_def isolation_violations_zero)

lemma checkTenantIsolation_eq:
  "checkTenantIsolation e s =
     (case query_error e IsolationQ of
        None \<Rightarrow> (True, s\<lparr>calls := calls s @ [Query IsolationQ]\<rparr>)
      | Some m \<Rightarrow>
          (False, s\<lparr>calls := calls s @ [Query IsolationQ],
                    issues := issues s @ [''Isolation check failure: '' @ m]\<rparr>))"
  by (simp add: checkTenantIsolation_def db_query_def isolation_rows_empty Let_def
      split: option.split)

lemma fold_capacity_step:
  "\<exists>w h. fold capacity_step rows (iss, x, w0, h0) =
     (iss @ map (\<lambda>r. ''Tenant capacity exceeded: '' @ cr_name r)
              (filter (\<lambda>r. cr_capacity_status r = EXCEEDED) rows),
      x + length (filter (\<lambda>r. cr_capacity_status r = EXCEEDED) rows), w, h)"
proof (induction rows arbitrary: iss x w0 h0)
  case Nil
  then show ?case by simp
next
  case (Cons r rows)
  show ?case
  proof (cases "cr_capacity_status r = EXCEEDED")
    case True
    then have step: "capacity_step r (iss, x, w0, h0) =
        (iss @ [''Tenant capacity exceeded: '' @ cr_name r], x + 1, w0, h0)"
      by (simp add: capacity_step_def)
    from Cons.IH [of "iss @ [''Tenant capacity exceeded: '' @ cr_name r]" "x + 1" w0 h0]
    show ?thesis using True by (simp add: step)
  next
    case False
    then have "\<exists>w1 h1. capacity_step r (iss, x, w0, h0) = (iss, x, w1, h1)"
      by (simp add: capacity_step_def)
    then obtain w1 h1 where step: "capacity_step r (iss, x, w0, h0) = (iss, x, w1, h1)"
      by blast
    from Cons.IH [of iss x w1 h1]
    show ?thesis using False by (simp add: step)
  qed
qed

lemma checkTenantLimits_ok:
  assumes "query_error e CapacityQ = None"
  shows "checkTenantLimits e s =
     (filter (\<lambda>r. cr_capacity_status r = EXCEEDED) (capacity_rows (db e)) = [],
      s\<lparr>calls := calls s @ [Query CapacityQ],
        issues := issues s @ map (\<lambda>r. ''Tenant capacity exceeded: '' @ cr_name r)
          (filter (\<lambda>r. cr_capacity_status r = EXCEEDED) (capacity_rows (db e)))\<rparr>)"
proof -
  obtain w h where
    "fold capacity_step (capacity_rows (db e)) (issues s, 0, 0, 0) =
       (issues s @ map (\<lambda>r. ''Tenant capacity exceeded: '' @ cr_name r)
          (filter (\<lambda>r. cr_capacity_status r = EXCEEDED) (capacity_rows (db e))),
        0 + length (filter (\<lambda>r. cr_capacity_status r = EXCEEDED) (capacity_rows (db e))), w, h)"
    using fold_capacity_step [of "capacity_rows (db e)" "issues s" 0 0 0] by blast
  then show ?thesis
    using assms by (simp add: checkTenantLimits_def db_query_def Let_def)
qed

lemma checkTenantLimits_failed:
  assumes "query_error e CapacityQ = Some m"
  shows "checkTenantLimits e s =
     (False, s\<lparr>calls := calls s @ [Query CapacityQ],
               issues := issues s @ [''Capacity check failure: '' @ m]\<rparr>)"
  using assms by (simp add: checkTenantLimits_def db_query_def Let_def)

lemma exceeded_capacity_rows:
  "(filter (\<lambda>r. cr_capacity_status r = EXCEEDED) (capacity_rows d) = []) =
   (\<forall>t \<in> set (active_tenants d). cr_capacity_status (tenant_capacity d t) \<noteq> EXCEEDED)"
  by (auto simp add: capacity_rows_def filter_empty_conv)

lemma checkDatabaseHealth_eq:
  "checkDatabaseHealth e s =
     (case query_error e ActiveCountQ of
        Some m \<Rightarrow>
          (False, s\<lparr>calls := calls s @ [Query ActiveCountQ],
                    issues := issues s @ [''Database health failure: '' @ m]\<rparr>)
      | None \<Rightarrow>
          if active_tenants (db e) = []
          then (False, s\<lparr>calls := calls s @ [Query ActiveCountQ],
                         issues := issues s @ [''No active tenants in database'']\<rparr>)
          else (case query_error e OrphanQ of
                  Some m \<Rightarrow>
                    (False, s\<lparr>calls := calls s @ [Query ActiveCountQ, Query OrphanQ],
                              issues := issues s @ [''Database health failure: '' @ m]\<rparr>)
                | None \<Rightarrow> (True, s\<lparr>calls := calls s @ [Query ActiveCountQ, Query OrphanQ]\<rparr>)))"
  by (simp add: checkDatabaseHealth_def db_query_def Let_def split: option.split)

lemma checkTenantIsolation_frame:
  "checkTenantIsolation e s =
     (fst (checkTenantIsolation e new_ProductionTenantHealth),
      s\<lparr>calls := calls s @ calls (snd (checkTenantIsolation e new_ProductionTenantHealth)),
        issues := issues s @ issues (snd (checkTenantIsolation e new_ProductionTenantHealth))\<rparr>)"
  by (simp add: checkTenantIsolation_eq new_ProductionTenantHealth_def split: option.split)

lemma checkTenantLimits_frame:
  "checkTenantLimits e s =
     (fst (checkTenantLimits e new_ProductionTenantHealth),
      s\<lparr>calls := calls s @ calls (snd (checkTenantLimits e new_ProductionTenantHealth)),
        issues := issues s @ issues (snd (checkTenantLimits e new_ProductionTenantHealth))\<rparr>)"
proof (cases "query_error e CapacityQ")
  case None
  then show ?thesis
    by (simp add: checkTenantLimits_ok new_ProductionTenantHealth_def)
next
  case (Some m)
  then show ?thesis
    by (simp add: checkTenantLimits_failed new_ProductionTenantHealth_def)
qed

lemma checkDatabaseHealth_frame:
  "checkDatabaseHealth e s =
     (fst (checkDatabaseHealth e new_ProductionTenantHealth),
      s\<lparr>calls := calls s @ calls (snd (checkDatabaseHealth e new_ProductionTenantHealth)),
        issues := issues s @ issues (snd (checkDatabaseHealth e new_ProductionTenantHealth))\<rparr>)"
  by (simp add: checkDatabaseHealth_eq new_ProductionTenantHealth_def split: option.split)

text \<open>What a run that connects leaves behind and returns.\<close>

lemma run_connected:
  assumes "connect_error e = None"
  shows "runProductionHealthCheck e s =
     (case end_error e of
        Some m \<Rightarrow> Inl m
      | None \<Rightarrow> Inr (issues s = []
          \<and> issues (snd (checkTenantIsolation e new_ProductionTenantHealth)) = []
          \<and> issues (snd (checkTenantLimits e new_ProductionTenantHealth)) = []
          \<and> issues (snd (checkDatabaseHealth e new_ProductionTenantHealth)) = []),
      s\<lparr>calls := calls s @ [Connect]
            @ calls (snd (checkTenantIsolation e new_ProductionTenantHealth))
            @ calls (snd (checkTenantLimits e new_ProductionTenantHealth))
            @ calls (snd (checkDatabaseHealth e new_ProductionTenantHealth)) @ [End],
        issues := issues s
            @ issues (snd (checkTenantIsolation e new_ProductionTenantHealth))
            @ issues (snd (checkTenantLimits e new_ProductionTenantHealth))
            @ issues (snd (checkDatabaseHealth e new_ProductionTenantHealth))\<rparr>)"
proof -
  let ?s0 = "s\<lparr>calls := calls s @ [Connect]\<rparr>"
  obtain b1 s1 where c1: "checkTenantIsolation e ?s0 = (b1, s1)" by (cases "checkTenantIsolation e ?s0")
  obtain b2 s2 where c2: "checkTenantLimits e s1 = (b2, s2)" by (cases "checkTenantLimits e s1")
  obtain b3 s3 where c3: "checkDatabaseHealth e s2 = (b3, s3)" by (cases "checkDatabaseHealth e s2")
  have s1: "s1 = ?s0\<lparr>calls := calls ?s0 @ calls (snd (checkTenantIsolation e new_ProductionTenantHealth)),
        issues := issues ?s0 @ issues (snd (checkTenantIsolation e new_ProductionTenantHealth))\<rparr>"
    using c1 checkTenantIsolation_frame [of e ?s0] by simp
  have s2: "s2 = s1\<lparr>calls := calls s1 @ calls (snd (checkTenantLimits e new_ProductionTenantHealth)),
        issues := issues s1 @ issues (snd (checkTenantLimits e new_ProductionTenantHealth))\<rparr>"
    using c2 checkTenantLimits_frame [of e s1] by simp
  have s3: "s3 = s2\<lparr>calls := calls s2 @ calls (snd (checkDatabaseHealth e new_ProductionTenantHealth)),
        issues := issues s2 @ issues (snd (checkDatabaseHealth e new_ProductionTenantHealth))\<rparr>"
    using c3 checkDatabaseHealth_frame [of e s2] by simp
  have "runProductionHealthCheck e s =
      (case end_error e of Some m \<Rightarrow> Inl m | None \<Rightarrow> Inr (issues s3 = []),
       s3\<lparr>calls := calls s3 @ [End]\<rparr>)"
    using assms c1 c2 c3
    by (simp add: runProductionHealthCheck_def generateProductionReport_def Let_def
        split: option.split)
  moreover have "issues s3 = issues s
            @ issues (snd (checkTenantIsolation e new_ProductionTenantHealth))
            @ issues (snd (checkTenantLimits e new_ProductionTenantHealth))
            @ issues (snd (checkDatabaseHealth e new_ProductionTenantHealth))"
    by (simp add: s1 s2 s3)
  ultimately show ?thesis
    by (simp add: s1 s2 s3 split: option.split)
qed

lemma run_unreachable:
  assumes "connect_error e = Some m"
  shows "runProductionHealthCheck e s = (Inl m, s\<lparr>calls := calls s @ [Connect]\<rparr>)"
  using assms by (simp add: runProductionHealthCheck_def Let_def)

section \<open>Capacity classification\<close>

text \<open>
  C1, as amended. For a limit above zero the monitor's classifier (both dimensions)
  returns EXCEEDED when \<open>count \<ge> limit\<close>, HIGH when \<open>limit * 0.8 < count < limit\<close> and OK
  when \<open>count \<le> limit * 0.8\<close>. The production classifier returns EXCEEDED when
  \<open>count > limit\<close>, HIGH when \<open>limit * 0.9 < count < limit\<close> and OK when
  \<open>count \<le> limit * 0.9\<close>. For a fixed limit both never fall as the count grows.
\<close>

theorem classifier_thresholds:
  assumes "0 < limit"
  shows "(count_v \<ge> limit \<longrightarrow> perf_status count_v limit = EXCEEDED)
       \<and> (of_int limit * (8 / 10) < (of_int count_v :: rat) \<and> count_v < limit
            \<longrightarrow> perf_status count_v limit = HIGH)
       \<and> ((of_int count_v :: rat) \<le> of_int limit * (8 / 10) \<longrightarrow> perf_status count_v limit = OK)
       \<and> (count_v \<le> count_w
            \<longrightarrow> severity (perf_status count_v limit) \<le> severity (perf_status count_w limit))
       \<and> (count_v > limit \<longrightarrow> capacity_status (Some limit) count_v = EXCEEDED)
       \<and> (of_int limit * (9 / 10) < (of_int count_v :: rat) \<and> count_v < limit
            \<longrightarrow> capacity_status (Some limit) count_v = HIGH)
       \<and> ((of_int count_v :: rat) \<le> of_int limit * (9 / 10)
            \<longrightarrow> capacity_status (Some limit) count_v = OK)
       \<and> (count_v \<le> count_w
            \<longrightarrow> severity (capacity_status (Some limit) count_v)
                \<le> severity (capacity_status (Some limit) count_w))"
  using assms
  by (auto simp add: perf_status_def capacity_status_def coalesce_limit_def
        warn_bound_80 warn_bound_90 not_less linorder_not_le)

text \<open>The theorem at the limits 10 and 20.\<close>

theorem classifier_thresholds_witness:
  "perf_status 10 10 = EXCEEDED \<and> perf_status 9 10 = HIGH \<and> perf_status 8 10 = OK
   \<and> severity (perf_status 8 10) \<le> severity (perf_status 9 10)
   \<and> capacity_status (Some 10) 11 = EXCEEDED \<and> capacity_status (Some 20) 19 = HIGH
   \<and> capacity_status (Some 10) 9 = OK
   \<and> severity (capacity_status (Some 10) 9) \<le> severity (capacity_status (Some 10) 11)"
  using classifier_thresholds [of 10 10 10] classifier_thresholds [of 10 9 10]
    classifier_thresholds [of 10 8 9] classifier_thresholds [of 10 11 11]
    classifier_thresholds [of 20 19 19] classifier_thresholds [of 10 9 11]
  by simp

text \<open>
  C1 as stated fails on the production classifier: with 10 users of 10 allowed the claim
  asks for EXCEEDED and the status is HIGH; with 17 users of 20 allowed the claim asks for
  HIGH (\<open>16 < 17 < 20\<close>) and the status is OK.
\<close>

theorem production_classifier_counterexample:
  "capacity_status (Some 10) 10 = HIGH \<and> capacity_status (Some 20) 17 = OK"
  by (simp add: capacity_status_def coalesce_limit_def)

text \<open>
  C2. A limit of \<open>-1\<close> gives UNLIMITED whatever the count: in both classifiers, and in
  the rows the queries build for a tenant whose \<^verbatim>\<open>users\<close> or \<^verbatim>\<open>apiCalls\<close> limit is \<open>-1\<close>.
\<close>

theorem unlimited_limit_is_UNLIMITED:
  "perf_status count_v (- 1) = UNLIMITED
   \<and> capacity_status (Some (- 1)) count_v = UNLIMITED
   \<and> (tn_limit_users t = Some (- 1) \<longrightarrow>
        cr_capacity_status (tenant_capacity d t) = UNLIMITED
        \<and> (\<forall>row. perf_select f8 (tenant_metrics d t) = Inr row \<longrightarrow> pr_user_status row = UNLIMITED))
   \<and> (tn_limit_apiCalls t = Some (- 1) \<longrightarrow>
        (\<forall>row. perf_select f8 (tenant_metrics d t) = Inr row \<longrightarrow> pr_api_status row = UNLIMITED))"
proof -
  have a: "perf_status count_v (- 1) = UNLIMITED" for count_v
    by (simp add: perf_status_def)
  have b: "capacity_status (Some (- 1)) count_v = UNLIMITED" for count_v
    by (simp add: capacity_status_def)
  have c: "cr_capacity_status (tenant_capacity d t) = UNLIMITED" if "tn_limit_users t = Some (- 1)"
    using that by (simp add: tenant_capacity_def Let_def b)
  have u: "pr_user_status row = UNLIMITED"
    if "tn_limit_users t = Some (- 1)" "perf_select f8 (tenant_metrics d t) = Inr row" for row
    using that
    by (auto simp add: perf_select_def tenant_metrics_def Let_def coalesce_limit_def a
        split: sum.splits)
  have v: "pr_api_status row = UNLIMITED"
    if "tn_limit_apiCalls t = Some (- 1)" "perf_select f8 (tenant_metrics d t) = Inr row" for row
    using that
    by (auto simp add: perf_select_def tenant_metrics_def Let_def coalesce_limit_def a
        split: sum.splits)
  show ?thesis
    using a b c u v by blast
qed

lemma globex_row:
  "\<exists>row. perf_select float8_percent (tenant_metrics db_unlimited tenant_globex) = Inr row"
  by (simp add: perf_select_def utilization_def tenant_metrics_def tenant_globex_def
      coalesce_limit_def Let_def)

theorem unlimited_limit_is_UNLIMITED_witness:
  "tn_limit_users tenant_globex = Some (- 1) \<and> tn_limit_apiCalls tenant_globex = Some (- 1)
   \<and> cr_capacity_status (tenant_capacity db_unlimited tenant_globex) = UNLIMITED
   \<and> (\<exists>row. perf_select float8_percent (tenant_metrics db_unlimited tenant_globex) = Inr row
         \<and> pr_user_status row = UNLIMITED \<and> pr_api_status row = UNLIMITED)"
proof -
  have l: "tn_limit_users tenant_globex = Some (- 1)" "tn_limit_apiCalls tenant_globex = Some (- 1)"
    by (simp_all add: tenant_globex_def)
  obtain row where r: "perf_select float8_percent (tenant_metrics db_unlimited tenant_globex) = Inr row"
    using globex_row by blast
  show ?thesis
    using l r unlimited_limit_is_UNLIMITED [of 0 tenant_globex db_unlimited float8_percent]
    by blast
qed

section \<open>Production readiness\<close>

text \<open>When each check of the production script adds no issue.\<close>

lemma isolation_issues:
  "(issues (snd (checkTenantIsolation e new_ProductionTenantHealth)) = []) =
   (query_error e IsolationQ = None)"
  by (simp add: checkTenantIsolation_eq new_ProductionTenantHealth_def split: option.split)

lemma capacity_issues:
  "(issues (snd (checkTenantLimits e new_ProductionTenantHealth)) = []) =
   (query_error e CapacityQ = None
    \<and> (\<forall>t \<in> set (active_tenants (db e)). cr_capacity_status (tenant_capacity (db e) t) \<noteq> EXCEEDED))"
proof (cases "query_error e CapacityQ")
  case None
  then show ?thesis
    by (simp add: checkTenantLimits_ok new_ProductionTenantHealth_def exceeded_capacity_rows)
next
  case (Some m)
  then show ?thesis
    by (simp add: checkTenantLimits_failed new_ProductionTenantHealth_def)
qed

lemma database_issues:
  "(issues (snd (checkDatabaseHealth e new_ProductionTenantHealth)) = []) =
   (query_error e ActiveCountQ = None \<and> active_tenants (db e) \<noteq> []
    \<and> query_error e OrphanQ = None)"
  by (simp add: checkDatabaseHealth_eq new_ProductionTenantHealth_def split: option.split)

text \<open>
  C3, as amended. A production run that connects and disconnects returns
  \<open>productionReady = true\<close> exactly when all four queries succeed, the isolation query
  returns no row, no active tenant has the capacity status EXCEEDED, and there is at least
  one active tenant. The status HIGH does not occur in the condition: a warning never
  blocks.
\<close>

theorem productionReady_iff:
  assumes "connect_error e = None" and "end_error e = None"
  shows "fst (runProductionHealthCheck e new_ProductionTenantHealth) =
     Inr (query_error e IsolationQ = None \<and> query_error e CapacityQ = None
          \<and> query_error e ActiveCountQ = None \<and> query_error e OrphanQ = None
          \<and> isolation_rows (db e) = []
          \<and> (\<forall>t \<in> set (active_tenants (db e)).
                cr_capacity_status (tenant_capacity (db e) t) \<noteq> EXCEEDED)
          \<and> active_tenants (db e) \<noteq> [])"
proof -
  have "issues new_ProductionTenantHealth = []"
    by (simp add: new_ProductionTenantHealth_def)
  then show ?thesis
    using assms
    by (auto simp add: run_connected [OF assms(1)] isolation_issues capacity_issues
        database_issues isolation_rows_empty)
qed

text \<open>A run that is ready although the only tenant has the status HIGH.\<close>

lemma acme_active: "active_tenants db_orphan = [tenant_acme]"
  by (simp add: active_tenants_def db_orphan_def tenant_acme_def)

lemma acme_high: "cr_capacity_status (tenant_capacity db_orphan tenant_acme) = HIGH"
  by (simp add: tenant_capacity_def db_orphan_def tenant_acme_def user_of_def left_join_def
      count_joined_def capacity_status_def coalesce_limit_def Let_def)

theorem productionReady_iff_witness:
  "connect_error (env_ok db_orphan) = None \<and> end_error (env_ok db_orphan) = None
   \<and> active_tenants db_orphan = [tenant_acme]
   \<and> cr_capacity_status (tenant_capacity db_orphan tenant_acme) = HIGH
   \<and> fst (runProductionHealthCheck (env_ok db_orphan) new_ProductionTenantHealth) = Inr True"
proof -
  have c: "connect_error (env_ok db_orphan) = None" and d: "end_error (env_ok db_orphan) = None"
    by (simp_all add: env_ok_def)
  show ?thesis
    using productionReady_iff [OF c d] c d
    by (simp add: acme_active acme_high isolation_rows_empty) (simp add: env_ok_def acme_active acme_high)
qed

text \<open>
  C3 as stated fails without tenants: the isolation query returns no row and no tenant is
  EXCEEDED, yet the run returns \<open>productionReady = false\<close>.
\<close>

theorem productionReady_counterexample:
  "isolation_rows db_empty = []
   \<and> map (tenant_capacity db_empty) (active_tenants db_empty) = []
   \<and> fst (runProductionHealthCheck (env_ok db_empty) new_ProductionTenantHealth) = Inr False"
proof -
  have c: "connect_error (env_ok db_empty) = None"
    by (simp add: env_ok_def)
  have a: "active_tenants db_empty = []"
    by (simp add: active_tenants_def db_empty_def)
  have "issues (snd (checkDatabaseHealth (env_ok db_empty) new_ProductionTenantHealth)) \<noteq> []"
    by (simp add: database_issues) (simp add: env_ok_def a)
  then show ?thesis
    by (simp add: run_connected [OF c] isolation_rows_empty a) (simp add: env_ok_def)
qed

section \<open>The verdict of a run\<close>

lemma generateReport_eq:
  "generateReport e s =
     (filter (\<lambda>a. a_type a = CRITICAL) (alerts s) = [], s\<lparr>mcalls := mcalls s @ [Query TenantsQ]\<rparr>)"
  by (simp add: generateReport_def Let_def)

lemma runFull_unreachable:
  assumes "connect_error e = Some m"
  shows "runFullHealthCheck e s = (Inl m, s\<lparr>mcalls := mcalls s @ [Connect]\<rparr>)"
  using assms by (simp add: runFullHealthCheck_def Let_def)

lemma runFull_result:
  "fst (runFullHealthCheck e s) =
     (case connect_error e of
        Some m \<Rightarrow> Inl m
      | None \<Rightarrow>
          (case end_error e of
             Some m \<Rightarrow> Inl m
           | None \<Rightarrow>
               Inr (filter (\<lambda>a. a_type a = CRITICAL) (alerts (snd (runFullHealthCheck e s))) = [])))"
  by (simp add: runFullHealthCheck_def generateReport_eq Let_def
      split: option.split prod.split)


lemma orphan_run_ready:
  "fst (runProductionHealthCheck (env_ok db_orphan) new_ProductionTenantHealth) = Inr True"
proof -
  have c: "connect_error (env_ok db_orphan) = None"
    by (simp add: env_ok_def)
  have "issues (snd (checkTenantIsolation (env_ok db_orphan) new_ProductionTenantHealth)) = []"
    by (simp add: isolation_issues) (simp add: env_ok_def)
  moreover have "issues (snd (checkTenantLimits (env_ok db_orphan) new_ProductionTenantHealth)) = []"
    by (simp add: capacity_issues) (simp add: env_ok_def acme_active acme_high)
  moreover have "issues (snd (checkDatabaseHealth (env_ok db_orphan) new_ProductionTenantHealth)) = []"
    by (simp add: database_issues) (simp add: env_ok_def acme_active)
  ultimately show ?thesis
    by (simp add: run_connected [OF c]) (simp add: env_ok_def new_ProductionTenantHealth_def)
qed

section \<open>No active tenants\<close>

text \<open>
  C10. With no active tenant the production script exits with code 1 and never returns
  \<open>productionReady = true\<close>. When the connection and the count query succeed, the issue
  \<^verbatim>\<open>No active tenants in database\<close> is recorded; when the isolation and capacity queries
  succeed as well, it is the only issue: there is neither an isolation nor a capacity
  violation, and the run still returns \<open>false\<close>.
\<close>

theorem no_active_tenants_blocks:
  assumes "active_tenants (db e) = []"
  shows "production_main e = 1
     \<and> fst (runProductionHealthCheck e new_ProductionTenantHealth) \<noteq> Inr True
     \<and> (connect_error e = None \<and> query_error e ActiveCountQ = None \<longrightarrow>
          ''No active tenants in database''
            \<in> set (issues (snd (runProductionHealthCheck e new_ProductionTenantHealth))))
     \<and> (connect_error e = None \<and> end_error e = None \<and> query_error e IsolationQ = None
        \<and> query_error e CapacityQ = None \<and> query_error e ActiveCountQ = None \<longrightarrow>
          runProductionHealthCheck e new_ProductionTenantHealth =
            (Inr False,
             \<lparr>issues = [''No active tenants in database''],
              calls = [Connect, Query IsolationQ, Query CapacityQ, Query ActiveCountQ, End]\<rparr>))"
proof -
  have d: "issues (snd (checkDatabaseHealth e new_ProductionTenantHealth)) \<noteq> []"
    using assms by (simp add: database_issues)
  have r: "fst (runProductionHealthCheck e new_ProductionTenantHealth) \<noteq> Inr True"
  proof (cases "connect_error e")
    case None
    then show ?thesis
      using d by (simp add: run_connected split: option.split)
  next
    case (Some m)
    then show ?thesis
      by (simp add: run_unreachable)
  qed
  have x: "production_main e = 1"
    using r by (cases "fst (runProductionHealthCheck e new_ProductionTenantHealth)")
      (simp_all add: production_main_def)
  have i: "''No active tenants in database''
            \<in> set (issues (snd (runProductionHealthCheck e new_ProductionTenantHealth)))"
    if "connect_error e = None" "query_error e ActiveCountQ = None"
    using that assms
    by (simp add: run_connected checkDatabaseHealth_eq new_ProductionTenantHealth_def)
  have f: "runProductionHealthCheck e new_ProductionTenantHealth =
            (Inr False,
             \<lparr>issues = [''No active tenants in database''],
              calls = [Connect, Query IsolationQ, Query CapacityQ, Query ActiveCountQ, End]\<rparr>)"
    if "connect_error e = None" "end_error e = None" "query_error e IsolationQ = None"
      "query_error e CapacityQ = None" "query_error e ActiveCountQ = None"
    using that assms
    by (simp add: run_connected checkDatabaseHealth_eq checkTenantIsolation_eq
        checkTenantLimits_ok capacity_rows_def new_ProductionTenantHealth_def)
  show ?thesis
    using r x i f by blast
qed

text \<open>The theorem on the empty row source.\<close>

theorem no_active_tenants_blocks_witness:
  "active_tenants (db (env_ok db_empty)) = []
   \<and> production_main (env_ok db_empty) = 1
   \<and> runProductionHealthCheck (env_ok db_empty) new_ProductionTenantHealth =
        (Inr False,
         \<lparr>issues = [''No active tenants in database''],
          calls = [Connect, Query IsolationQ, Query CapacityQ, Query ActiveCountQ, End]\<rparr>)"
proof -
  have a: "active_tenants (db (env_ok db_empty)) = []"
    by (simp add: env_ok_def active_tenants_def db_empty_def)
  have q: "connect_error (env_ok db_empty) = None" "end_error (env_ok db_empty) = None"
    "query_error (env_ok db_empty) IsolationQ = None"
    "query_error (env_ok db_empty) CapacityQ = None"
    "query_error (env_ok db_empty) ActiveCountQ = None"
    by (simp_all add: env_ok_def)
  show ?thesis
    using no_active_tenants_blocks [OF a] a q by blast
qed

section \<open>Failing queries and a failing connection\<close>

lemma check_calls_prefix:
  "\<exists>rest. calls (snd (checkTenantIsolation e new_ProductionTenantHealth))
        @ calls (snd (checkTenantLimits e new_ProductionTenantHealth))
        @ calls (snd (checkDatabaseHealth e new_ProductionTenantHealth))
      = [Query IsolationQ, Query CapacityQ, Query ActiveCountQ] @ rest"
proof -
  have a: "calls (snd (checkTenantIsolation e new_ProductionTenantHealth)) = [Query IsolationQ]"
    by (simp add: checkTenantIsolation_eq new_ProductionTenantHealth_def split: option.split)
  have b: "calls (snd (checkTenantLimits e new_ProductionTenantHealth)) = [Query CapacityQ]"
    by (cases "query_error e CapacityQ")
      (simp_all add: checkTenantLimits_ok checkTenantLimits_failed new_ProductionTenantHealth_def)
  have c: "\<exists>rest. calls (snd (checkDatabaseHealth e new_ProductionTenantHealth))
      = Query ActiveCountQ # rest"
    by (simp add: checkDatabaseHealth_eq new_ProductionTenantHealth_def split: option.split)
  show ?thesis
    using c by (auto simp add: a b)
qed

text \<open>
  C6. In the production script a query that rejects makes its own check return \<open>false\<close>
  with one issue naming that check and the error message. The other checks still run:
  after a connection, the isolation, capacity and count queries are always issued, in this
  order, and the issues of a run are the issues of the three checks, each as the check
  reports them on its own; what a check does depends only on the tables and on the
  outcome of its own queries. When the connection is refused the run rejects after the
  single call \<^verbatim>\<open>connect\<close>, no query is issued, and the exit code is 1.
\<close>

theorem failures_are_localized:
  "(connect_error e = Some m \<longrightarrow>
      runProductionHealthCheck e s = (Inl m, s\<lparr>calls := calls s @ [Connect]\<rparr>)
      \<and> production_main e = 1)
   \<and> (query_error e IsolationQ = Some m \<longrightarrow>
        checkTenantIsolation e s =
          (False, s\<lparr>calls := calls s @ [Query IsolationQ],
                    issues := issues s @ [''Isolation check failure: '' @ m]\<rparr>))
   \<and> (query_error e CapacityQ = Some m \<longrightarrow>
        checkTenantLimits e s =
          (False, s\<lparr>calls := calls s @ [Query CapacityQ],
                    issues := issues s @ [''Capacity check failure: '' @ m]\<rparr>))
   \<and> (query_error e ActiveCountQ = Some m \<longrightarrow>
        checkDatabaseHealth e s =
          (False, s\<lparr>calls := calls s @ [Query ActiveCountQ],
                    issues := issues s @ [''Database health failure: '' @ m]\<rparr>))
   \<and> (query_error e ActiveCountQ = None \<and> active_tenants (db e) \<noteq> []
        \<and> query_error e OrphanQ = Some m \<longrightarrow>
        checkDatabaseHealth e s =
          (False, s\<lparr>calls := calls s @ [Query ActiveCountQ, Query OrphanQ],
                    issues := issues s @ [''Database health failure: '' @ m]\<rparr>))
   \<and> (connect_error e = None \<longrightarrow>
        issues (snd (runProductionHealthCheck e s)) =
          issues s @ issues (snd (checkTenantIsolation e new_ProductionTenantHealth))
            @ issues (snd (checkTenantLimits e new_ProductionTenantHealth))
            @ issues (snd (checkDatabaseHealth e new_ProductionTenantHealth))
        \<and> (\<exists>rest. calls (snd (runProductionHealthCheck e s)) =
              calls s @ [Connect, Query IsolationQ, Query CapacityQ, Query ActiveCountQ] @ rest))
   \<and> (db e' = db e \<and> query_error e' IsolationQ = query_error e IsolationQ \<longrightarrow>
        checkTenantIsolation e' s = checkTenantIsolation e s)
   \<and> (db e' = db e \<and> query_error e' CapacityQ = query_error e CapacityQ \<longrightarrow>
        checkTenantLimits e' s = checkTenantLimits e s)
   \<and> (db e' = db e \<and> query_error e' ActiveCountQ = query_error e ActiveCountQ
        \<and> query_error e' OrphanQ = query_error e OrphanQ \<longrightarrow>
        checkDatabaseHealth e' s = checkDatabaseHealth e s)"
proof -
  have c1: "runProductionHealthCheck e s = (Inl m, s\<lparr>calls := calls s @ [Connect]\<rparr>)
      \<and> production_main e = 1" if "connect_error e = Some m"
    using that by (simp add: run_unreachable production_main_def)
  have q1: "checkTenantIsolation e s =
          (False, s\<lparr>calls := calls s @ [Query IsolationQ],
                    issues := issues s @ [''Isolation check failure: '' @ m]\<rparr>)"
    if "query_error e IsolationQ = Some m"
    using that by (simp add: checkTenantIsolation_eq)
  have q2: "checkTenantLimits e s =
          (False, s\<lparr>calls := calls s @ [Query CapacityQ],
                    issues := issues s @ [''Capacity check failure: '' @ m]\<rparr>)"
    if "query_error e CapacityQ = Some m"
    using that by (rule checkTenantLimits_failed)
  have q3: "checkDatabaseHealth e s =
          (False, s\<lparr>calls := calls s @ [Query ActiveCountQ],
                    issues := issues s @ [''Database health failure: '' @ m]\<rparr>)"
    if "query_error e ActiveCountQ = Some m"
    using that by (simp add: checkDatabaseHealth_eq)
  have q4: "checkDatabaseHealth e s =
          (False, s\<lparr>calls := calls s @ [Query ActiveCountQ, Query OrphanQ],
                    issues := issues s @ [''Database health failure: '' @ m]\<rparr>)"
    if "query_error e ActiveCountQ = None" "active_tenants (db e) \<noteq> []"
      "query_error e OrphanQ = Some m"
    using that by (simp add: checkDatabaseHealth_eq)
  have r1: "issues (snd (runProductionHealthCheck e s)) =
          issues s @ issues (snd (checkTenantIsolation e new_ProductionTenantHealth))
            @ issues (snd (checkTenantLimits e new_ProductionTenantHealth))
            @ issues (snd (checkDatabaseHealth e new_ProductionTenantHealth))"
    if "connect_error e = None"
    using that by (simp add: run_connected)
  have r2: "\<exists>rest. calls (snd (runProductionHealthCheck e s)) =
              calls s @ [Connect, Query IsolationQ, Query CapacityQ, Query ActiveCountQ] @ rest"
    if "connect_error e = None"
  proof -
    obtain rest where "calls (snd (checkTenantIsolation e new_ProductionTenantHealth))
        @ calls (snd (checkTenantLimits e new_ProductionTenantHealth))
        @ calls (snd (checkDatabaseHealth e new_ProductionTenantHealth))
      = [Query IsolationQ, Query CapacityQ, Query ActiveCountQ] @ rest"
      using check_calls_prefix by blast
    then have "calls (snd (runProductionHealthCheck e s)) =
        calls s @ [Connect, Query IsolationQ, Query CapacityQ, Query ActiveCountQ] @ (rest @ [End])"
      using that by (simp add: run_connected)
    then show ?thesis by blast
  qed
  have f1: "checkTenantIsolation e' s = checkTenantIsolation e s"
    if "query_error e' IsolationQ = query_error e IsolationQ"
    using that by (simp add: checkTenantIsolation_eq)
  have f2: "checkTenantLimits e' s = checkTenantLimits e s"
    if "db e' = db e" "query_error e' CapacityQ = query_error e CapacityQ"
    using that by (simp add: checkTenantLimits_def db_query_def)
  have f3: "checkDatabaseHealth e' s = checkDatabaseHealth e s"
    if "db e' = db e" "query_error e' ActiveCountQ = query_error e ActiveCountQ"
      "query_error e' OrphanQ = query_error e OrphanQ"
    unfolding checkDatabaseHealth_eq that ..
  show ?thesis
    using c1 q1 q2 q3 q4 r1 r2 f1 f2 f3 by blast
qed

text \<open>
  The theorem on a refused connection, and on a failing isolation query, which leaves the
  capacity and database checks as they are in a run without failure.
\<close>

theorem failures_are_localized_witness:
  "runProductionHealthCheck (env_unreachable db_orphan) new_ProductionTenantHealth =
     (Inl ''ECONNREFUSED'', \<lparr>issues = [], calls = [Connect]\<rparr>)
   \<and> production_main (env_unreachable db_orphan) = 1
   \<and> checkTenantIsolation (env_failing db_orphan IsolationQ) new_ProductionTenantHealth =
       (False, \<lparr>issues = [''Isolation check failure: boom''], calls = [Query IsolationQ]\<rparr>)
   \<and> checkTenantLimits (env_failing db_orphan IsolationQ) new_ProductionTenantHealth =
       checkTenantLimits (env_ok db_orphan) new_ProductionTenantHealth
   \<and> checkDatabaseHealth (env_failing db_orphan IsolationQ) new_ProductionTenantHealth =
       checkDatabaseHealth (env_ok db_orphan) new_ProductionTenantHealth"
proof -
  have u: "connect_error (env_unreachable db_orphan) = Some ''ECONNREFUSED''"
    by (simp add: env_unreachable_def)
  have q: "query_error (env_failing db_orphan IsolationQ) IsolationQ = Some ''boom''"
    by (simp add: env_failing_def)
  have d: "db (env_failing db_orphan IsolationQ) = db (env_ok db_orphan)"
    "query_error (env_failing db_orphan IsolationQ) CapacityQ = query_error (env_ok db_orphan) CapacityQ"
    "query_error (env_failing db_orphan IsolationQ) ActiveCountQ = query_error (env_ok db_orphan) ActiveCountQ"
    "query_error (env_failing db_orphan IsolationQ) OrphanQ = query_error (env_ok db_orphan) OrphanQ"
    by (simp_all add: env_failing_def env_ok_def)
  show ?thesis
    using u q d
      failures_are_localized [of "env_unreachable db_orphan" "''ECONNREFUSED''"
        new_ProductionTenantHealth]
      failures_are_localized [of "env_failing db_orphan IsolationQ" "''boom''"
        new_ProductionTenantHealth "env_failing db_orphan IsolationQ"]
      failures_are_localized [of "env_ok db_orphan" "''boom''"
        new_ProductionTenantHealth "env_failing db_orphan IsolationQ"]
    by (simp add: new_ProductionTenantHealth_def)
qed

section \<open>The monitor's checks, one by one\<close>

text \<open>
  Both joins of the leakage query carry the condition \<^verbatim>\<open>tenant_id = t.id\<close>, so neither count
  of mismatches can be positive and the query returns no row.
\<close>

lemma left_join_cases:
  assumes "j \<in> set (left_join xs)"
  shows "j = None \<or> (\<exists>x \<in> set xs. j = Some x)"
  using assms by (cases xs) (auto simp add: left_join_def)

lemma tenant_data_counts_zero: "tenant_data_counts d t = (0, 0)"
proof -
  let ?us = "left_join (filter (\<lambda>tu. tu_tenant_id tu = tn_id t) (tenant_users d))"
  let ?ss = "left_join (filter (\<lambda>tus. tus_tenant_id tus = tn_id t) (tenant_usage_stats d))"
  have u: "\<not> (case u of None \<Rightarrow> False | Some tu \<Rightarrow> tu_tenant_id tu \<noteq> tn_id t)"
    if "u \<in> set ?us" for u
    using left_join_cases [OF that] by auto
  have s: "\<not> (case s of None \<Rightarrow> False | Some tus \<Rightarrow> tus_tenant_id tus \<noteq> tn_id t)"
    if "s \<in> set ?ss" for s
    using left_join_cases [OF that] by auto
  have "filter (\<lambda>(u, s). case u of None \<Rightarrow> False | Some tu \<Rightarrow> tu_tenant_id tu \<noteq> tn_id t)
          (List.product ?us ?ss) = []"
    using u by (auto simp add: filter_empty_conv)
  moreover have "filter (\<lambda>(u, s). case s of None \<Rightarrow> False | Some tus \<Rightarrow> tus_tenant_id tus \<noteq> tn_id t)
          (List.product ?us ?ss) = []"
    using s by (auto simp add: filter_empty_conv)
  ultimately show ?thesis
    by (simp add: tenant_data_counts_def Let_def)
qed

lemma leakage_rows_empty: "leakage_rows d = []"
  by (simp add: leakage_rows_def tenant_data_counts_zero)

lemma left_join_None:
  "filter (\<lambda>j. j = None) (left_join ms) = (if ms = [] then [None] else [])"
  by (cases ms) (auto simp add: left_join_def filter_empty_conv)

lemma orphan_count_eq:
  "orphan_count ts cs = length (filter (\<lambda>c. \<forall>t \<in> set ts. tn_id t \<noteq> c) cs)"
proof -
  have "filter (\<lambda>j. j = None) (concat (map (\<lambda>c. left_join (filter (\<lambda>t. tn_id t = c) ts)) cs)) =
        map (\<lambda>c. None) (filter (\<lambda>c. \<forall>t \<in> set ts. tn_id t \<noteq> c) cs)"
    by (induction cs) (auto simp add: left_join_None filter_empty_conv)
  then show ?thesis
    by (simp add: orphan_count_def)
qed

lemma orphan_count_positive:
  "(0 < orphan_count ts cs) = (\<exists>c \<in> set cs. \<forall>t \<in> set ts. tn_id t \<noteq> c)"
  by (auto simp add: orphan_count_eq filter_empty_conv)

lemma mon_checkTenantIsolation_ok:
  assumes "query_error e LeakageQ = None" and "query_error e OrphansQ = None"
  shows "mon_checkTenantIsolation e s =
     (let violations = map orphan_message (filter (\<lambda>row. or_orphan_count row > 0) (orphan_rows (db e)))
      in (violations,
          s\<lparr>mcalls := mcalls s @ [Query LeakageQ, Query OrphansQ],
            alerts := alerts s @ (if violations = [] then [] else [isolation_alert violations])\<rparr>))"
  using assms
  by (simp add: mon_checkTenantIsolation_def db_query_def leakage_rows_empty Let_def)

lemma mon_checkTenantIsolation_frame:
  "mon_checkTenantIsolation e s =
     (fst (mon_checkTenantIsolation e new_TenantHealthMonitor),
      s\<lparr>mcalls := mcalls s @ mcalls (snd (mon_checkTenantIsolation e new_TenantHealthMonitor)),
        alerts := alerts s @ alerts (snd (mon_checkTenantIsolation e new_TenantHealthMonitor))\<rparr>)"
  by (simp add: mon_checkTenantIsolation_def db_query_def leakage_rows_empty Let_def
      new_TenantHealthMonitor_def split: option.split)

lemma perf_step_eq:
  "perf_step r (als, out) =
     (als @ map exceeded_alert
        (filter (\<lambda>r. pr_user_status r = EXCEEDED \<or> pr_api_status r = EXCEEDED) [r]),
      snd (perf_step r ([], out)))"
proof (cases "pr_user_status r = EXCEEDED \<or> pr_api_status r = EXCEEDED")
  case True
  then have "perf_step r (x, out) =
      (x @ [exceeded_alert r],
       out\<lparr>po_lines := po_lines out @ [tenant_line ''CRITICAL'' r],
           po_criticalTenants := po_criticalTenants out + 1\<rparr>)" for x
    unfolding perf_step_def Let_def by (simp only: prod.case if_True)
  then show ?thesis
    using True by (simp only: filter.simps if_True list.map snd_conv)
next
  case False
  then have "\<exists>out1. \<forall>x. perf_step r (x, out) = (x, out1)"
    unfolding perf_step_def Let_def by (simp only: prod.case if_False) (metis (full_types))
  then obtain out1 where "perf_step r (x, out) = (x, out1)" for x
    by blast
  then show ?thesis
    using False by (simp only: filter.simps if_False list.map snd_conv append_Nil2)
qed

lemma fold_perf_step:
  "fold perf_step rows (als, out) =
     (als @ map exceeded_alert
        (filter (\<lambda>r. pr_user_status r = EXCEEDED \<or> pr_api_status r = EXCEEDED) rows),
      snd (fold perf_step rows ([], out)))"
proof (induction rows arbitrary: als out)
  case Nil
  then show ?case by simp
next
  case (Cons r rows)
  let ?x = "map exceeded_alert
       (filter (\<lambda>r. pr_user_status r = EXCEEDED \<or> pr_api_status r = EXCEEDED) [r])"
  let ?xs = "map exceeded_alert
       (filter (\<lambda>r. pr_user_status r = EXCEEDED \<or> pr_api_status r = EXCEEDED) rows)"
  obtain out1 where o: "snd (perf_step r ([], out)) = out1"
    by blast
  have a: "perf_step r (als, out) = (als @ ?x, out1)"
    using perf_step_eq [of r als out] by (simp only: o)
  have b: "perf_step r ([], out) = (?x, out1)"
    using perf_step_eq [of r "[]" out] by (simp only: o append_Nil)
  have "fold perf_step (r # rows) (als, out) = fold perf_step rows (als @ ?x, out1)"
    by (simp only: fold_simps a)
  also have "\<dots> = ((als @ ?x) @ ?xs, snd (fold perf_step rows ([], out1)))"
    by (rule Cons.IH)
  finally have l: "fold perf_step (r # rows) (als, out) =
      ((als @ ?x) @ ?xs, snd (fold perf_step rows ([], out1)))" .
  have "fold perf_step (r # rows) ([], out) = fold perf_step rows (?x, out1)"
    by (simp only: fold_simps b)
  also have "\<dots> = (?x @ ?xs, snd (fold perf_step rows ([], out1)))"
    by (rule Cons.IH)
  finally have r: "snd (fold perf_step (r # rows) ([], out)) = snd (fold perf_step rows ([], out1))"
    by (simp only: snd_conv)
  show ?case
    by (simp only: l r) simp
qed

lemma checkTenantPerformance_frame:
  "checkTenantPerformance e s =
     (fst (checkTenantPerformance e new_TenantHealthMonitor),
      s\<lparr>mcalls := mcalls s @ mcalls (snd (checkTenantPerformance e new_TenantHealthMonitor)),
        alerts := alerts s @ alerts (snd (checkTenantPerformance e new_TenantHealthMonitor))\<rparr>)"
proof (cases "case query_error e PerfQ of Some message \<Rightarrow> Inl message
               | None \<Rightarrow> perf_rows float8_percent (db e)")
  case (Inl m)
  then show ?thesis
    by (simp add: checkTenantPerformance_def Let_def new_TenantHealthMonitor_def)
next
  case (Inr rows)
  let ?out0 = "\<lparr>po_lines = [], po_healthyTenants = 0, po_warningTenants = 0,
                       po_criticalTenants = 0\<rparr>"
  let ?xs = "map exceeded_alert
       (filter (\<lambda>r. pr_user_status r = EXCEEDED \<or> pr_api_status r = EXCEEDED) rows)"
  obtain out1 where o: "snd (fold perf_step rows ([], ?out0)) = out1"
    by blast
  have a: "fold perf_step rows (als, ?out0) = (als @ ?xs, out1)" for als
    using fold_perf_step [of rows als ?out0] by (simp only: o)
  show ?thesis
    using Inr
    by (simp add: checkTenantPerformance_def Let_def new_TenantHealthMonitor_def a)
qed

lemma runFull_connected:
  assumes "connect_error e = None"
  shows "alerts (snd (runFullHealthCheck e s)) =
      alerts s @ alerts (snd (mon_checkTenantIsolation e new_TenantHealthMonitor))
        @ alerts (snd (checkTenantPerformance e new_TenantHealthMonitor)) @ service_alerts e"
proof -
  let ?s0 = "s\<lparr>mcalls := mcalls s @ [Connect]\<rparr>"
  obtain v s1 where c1: "mon_checkTenantIsolation e ?s0 = (v, s1)"
    by (cases "mon_checkTenantIsolation e ?s0")
  obtain p s2 where c2: "checkTenantPerformance e s1 = (p, s2)"
    by (cases "checkTenantPerformance e s1")
  have s1: "alerts s1 = alerts s @ alerts (snd (mon_checkTenantIsolation e new_TenantHealthMonitor))"
    using c1 mon_checkTenantIsolation_frame [of e ?s0] by auto
  have s2: "alerts s2 = alerts s1 @ alerts (snd (checkTenantPerformance e new_TenantHealthMonitor))"
    using c2 checkTenantPerformance_frame [of e s1] by auto
  have "alerts (snd (runFullHealthCheck e s)) = alerts s2 @ service_alerts e"
    using assms c1 c2
    by (simp add: runFullHealthCheck_def generateReport_eq checkServiceHealth_def Let_def
        split: option.split)
  then show ?thesis
    by (simp add: s1 s2)
qed

section \<open>The message of a leakage row\<close>

text \<open>
  C8. A row of the leakage query has the columns \<^verbatim>\<open>tenant_id\<close>, \<^verbatim>\<open>tenant_name\<close>,
  \<^verbatim>\<open>mismatched_users\<close> and \<^verbatim>\<open>mismatched_usage\<close>. The message built from it reads
  \<^verbatim>\<open>mismatched_subscriptions\<close>, which no row has: the read gives \<^verbatim>\<open>undefined\<close>, the message
  ends in \<^verbatim>\<open>undefined subscription violations\<close>, and it is the same whatever the count
  \<^verbatim>\<open>mismatched_usage\<close> is.
\<close>

theorem leakage_message_reads_missing_column:
  "map_of (leakage_row i n mu ms) P_mismatched_subscriptions = None
   \<and> js_get (leakage_row i n mu ms) P_mismatched_subscriptions = JsUndefined
   \<and> js_get (leakage_row i n mu ms) P_mismatched_usage = JsString (show_nat ms)
   \<and> leakage_message (leakage_row i n mu ms) =
       ''Tenant '' @ n @ '': '' @ show_nat mu @
       '' user violations, undefined subscription violations''
   \<and> leakage_message (leakage_row i n mu ms) = leakage_message (leakage_row i n mu ms')
   \<and> map leakage_message (leakage_rows d) =
       map (\<lambda>t. ''Tenant '' @ tn_name t @ '': '' @ show_nat (fst (tenant_data_counts d t)) @
                '' user violations, undefined subscription violations'')
         (filter (\<lambda>t. 0 < fst (tenant_data_counts d t) \<or> 0 < snd (tenant_data_counts d t))
           (active_tenants d))"
proof -
  have a: "map_of (leakage_row i n mu ms) P_mismatched_subscriptions = None" for i n mu ms
    by (simp add: leakage_row_def)
  have b: "js_get (leakage_row i n mu ms) P_mismatched_subscriptions = JsUndefined" for i n mu ms
    by (simp add: js_get_def a)
  have c: "js_get (leakage_row i n mu ms) P_mismatched_usage = JsString (show_nat ms)"
    by (simp add: js_get_def leakage_row_def)
  have d: "leakage_message (leakage_row i n mu ms) =
       ''Tenant '' @ n @ '': '' @ show_nat mu @
       '' user violations, undefined subscription violations''" for i n mu ms
    by (simp add: leakage_message_def b) (simp add: js_get_def leakage_row_def)
  have e: "leakage_message (leakage_row i n mu ms) = leakage_message (leakage_row i n mu ms')"
    by (simp only: d)
  have f: "map leakage_message (leakage_rows d) =
       map (\<lambda>t. ''Tenant '' @ tn_name t @ '': '' @ show_nat (fst (tenant_data_counts d t)) @
                '' user violations, undefined subscription violations'')
         (filter (\<lambda>t. 0 < fst (tenant_data_counts d t) \<or> 0 < snd (tenant_data_counts d t))
           (active_tenants d))"
    by (simp add: leakage_rows_def d split_beta comp_def)
  show ?thesis
    using a b c d e f by blast
qed

text \<open>The message of a row with 3 mismatched users and 4 or 7 mismatched usage rows.\<close>

lemma show_nat_3: "show_nat 3 = ''3''"
  by (simp add: show_nat.simps digit_char_def)

theorem leakage_message_reads_missing_column_witness:
  "leakage_message (leakage_row 1 ''acme'' 3 4) =
     ''Tenant acme: 3 user violations, undefined subscription violations''
   \<and> leakage_message (leakage_row 1 ''acme'' 3 4) = leakage_message (leakage_row 1 ''acme'' 3 7)"
proof -
  have "leakage_message (leakage_row 1 ''acme'' 3 4) =
       ''Tenant '' @ ''acme'' @ '': '' @ show_nat 3 @
       '' user violations, undefined subscription violations''"
    and e: "leakage_message (leakage_row 1 ''acme'' 3 4) = leakage_message (leakage_row 1 ''acme'' 3 7)"
    using leakage_message_reads_missing_column [of 1 "''acme''" 3 4 7 db_empty]
    by blast+
  then have "leakage_message (leakage_row 1 ''acme'' 3 4) =
     ''Tenant acme: 3 user violations, undefined subscription violations''"
    by (simp add: show_nat_3)
  then show ?thesis
    using e by blast
qed

section \<open>Orphaned records\<close>

lemma critical_alert_blocks:
  assumes "a \<in> set (alerts (snd (runFullHealthCheck e s)))" and "a_type a = CRITICAL"
  shows "fst (runFullHealthCheck e s) \<noteq> Inr True"
proof -
  have "filter (\<lambda>a. a_type a = CRITICAL) (alerts (snd (runFullHealthCheck e s))) \<noteq> []"
    using assms by (auto simp add: filter_empty_conv)
  then show ?thesis
    by (simp add: runFull_result [of e s] split: option.split)
qed

text \<open>
  C4, as amended. In the monitor, when the two queries of the isolation check succeed, a
  row of \<^verbatim>\<open>tenant_users\<close> or \<^verbatim>\<open>tenant_usage_stats\<close> whose tenant id matches no tenant is
  reported as \<^verbatim>\<open>N orphaned records in T table\<close>; the check returns a non-empty list of
  violations and raises a CRITICAL alert, the run does not return \<open>true\<close> and the exit code
  is 1. In the production script the database check returns \<open>true\<close> and records no issue
  whenever its two queries succeed and there is an active tenant, whatever the number of
  orphans.
\<close>

theorem orphans_reported_by_monitor:
  assumes "query_error e LeakageQ = None" and "query_error e OrphansQ = None"
  shows
    "((\<exists>c \<in> set (tenant_users (db e)). \<forall>t \<in> set (tenants (db e)). tn_id t \<noteq> tu_tenant_id c) \<longrightarrow>
        show_nat (orphan_count (tenants (db e)) (map tu_tenant_id (tenant_users (db e))))
          @ '' orphaned records in tenant_users table''
        \<in> set (fst (mon_checkTenantIsolation e s)))
     \<and> ((\<exists>c \<in> set (tenant_usage_stats (db e)). \<forall>t \<in> set (tenants (db e)). tn_id t \<noteq> tus_tenant_id c) \<longrightarrow>
        show_nat (orphan_count (tenants (db e)) (map tus_tenant_id (tenant_usage_stats (db e))))
          @ '' orphaned records in tenant_usage_stats table''
        \<in> set (fst (mon_checkTenantIsolation e s)))
     \<and> ((\<exists>c \<in> set (tenant_users (db e)). \<forall>t \<in> set (tenants (db e)). tn_id t \<noteq> tu_tenant_id c)
         \<or> (\<exists>c \<in> set (tenant_usage_stats (db e)). \<forall>t \<in> set (tenants (db e)). tn_id t \<noteq> tus_tenant_id c) \<longrightarrow>
        fst (mon_checkTenantIsolation e s) \<noteq> []
        \<and> isolation_alert (fst (mon_checkTenantIsolation e s))
            \<in> set (alerts (snd (mon_checkTenantIsolation e s)))
        \<and> fst (runFullHealthCheck e s) \<noteq> Inr True
        \<and> monitor_main e = 1)
     \<and> (query_error e ActiveCountQ = None \<and> query_error e OrphanQ = None
         \<and> active_tenants (db e) \<noteq> [] \<longrightarrow>
        checkDatabaseHealth e p = (True, p\<lparr>calls := calls p @ [Query ActiveCountQ, Query OrphanQ]\<rparr>))"
proof -
  let ?U = "\<exists>c \<in> set (tenant_users (db e)). \<forall>t \<in> set (tenants (db e)). tn_id t \<noteq> tu_tenant_id c"
  let ?S = "\<exists>c \<in> set (tenant_usage_stats (db e)). \<forall>t \<in> set (tenants (db e)). tn_id t \<noteq> tus_tenant_id c"
  let ?nu = "orphan_count (tenants (db e)) (map tu_tenant_id (tenant_users (db e)))"
  let ?ns = "orphan_count (tenants (db e)) (map tus_tenant_id (tenant_usage_stats (db e)))"
  let ?V = "map orphan_message (filter (\<lambda>row. or_orphan_count row > 0) (orphan_rows (db e)))"
  have v: "fst (mon_checkTenantIsolation e s) = ?V" for s
    by (simp add: mon_checkTenantIsolation_ok [OF assms] Let_def)
  have al: "alerts (snd (mon_checkTenantIsolation e s)) =
      alerts s @ (if ?V = [] then [] else [isolation_alert ?V])" for s
    by (simp add: mon_checkTenantIsolation_ok [OF assms] Let_def)
  have pu: "0 < ?nu" if "?U"
    using that by (simp add: orphan_count_positive)
  have ps: "0 < ?ns" if "?S"
    using that by (simp add: orphan_count_positive)
  have mu: "show_nat ?nu @ '' orphaned records in tenant_users table'' \<in> set ?V" if "0 < ?nu"
    using that by (simp add: orphan_rows_def orphan_message_def)
  have ms: "show_nat ?ns @ '' orphaned records in tenant_usage_stats table'' \<in> set ?V" if "0 < ?ns"
    using that by (simp add: orphan_rows_def orphan_message_def)
  have ne: "?V \<noteq> []" if "0 < ?nu \<or> 0 < ?ns"
    using that mu ms by fastforce
  have run: "fst (runFullHealthCheck e s) \<noteq> Inr True" if n: "?V \<noteq> []" for s
  proof (cases "connect_error e")
    case None
    have "isolation_alert ?V \<in> set (alerts (snd (runFullHealthCheck e s)))"
      using n by (simp add: runFull_connected [OF None] al)
    moreover have "a_type (isolation_alert ?V) = CRITICAL"
      by (simp add: isolation_alert_def)
    ultimately show ?thesis
      by (rule critical_alert_blocks)
  next
    case (Some m)
    then show ?thesis
      by (simp add: runFull_unreachable)
  qed
  have main: "monitor_main e = 1" if "?V \<noteq> []"
    using run [OF that, of new_TenantHealthMonitor]
    by (cases "fst (runFullHealthCheck e new_TenantHealthMonitor)")
      (simp_all add: monitor_main_def)
  have a1: "?U \<longrightarrow> show_nat ?nu @ '' orphaned records in tenant_users table''
        \<in> set (fst (mon_checkTenantIsolation e s))"
  proof
    assume ?U
    then have "0 < ?nu" by (rule pu)
    then have "show_nat ?nu @ '' orphaned records in tenant_users table'' \<in> set ?V" by (rule mu)
    then show "show_nat ?nu @ '' orphaned records in tenant_users table''
        \<in> set (fst (mon_checkTenantIsolation e s))"
      by (simp only: v)
  qed
  have a2: "?S \<longrightarrow> show_nat ?ns @ '' orphaned records in tenant_usage_stats table''
        \<in> set (fst (mon_checkTenantIsolation e s))"
  proof
    assume ?S
    then have "0 < ?ns" by (rule ps)
    then have "show_nat ?ns @ '' orphaned records in tenant_usage_stats table'' \<in> set ?V"
      by (rule ms)
    then show "show_nat ?ns @ '' orphaned records in tenant_usage_stats table''
        \<in> set (fst (mon_checkTenantIsolation e s))"
      by (simp only: v)
  qed
  have a3: "?U \<or> ?S \<longrightarrow>
        fst (mon_checkTenantIsolation e s) \<noteq> []
        \<and> isolation_alert (fst (mon_checkTenantIsolation e s))
            \<in> set (alerts (snd (mon_checkTenantIsolation e s)))
        \<and> fst (runFullHealthCheck e s) \<noteq> Inr True
        \<and> monitor_main e = 1"
  proof
    assume "?U \<or> ?S"
    then have "0 < ?nu \<or> 0 < ?ns"
      using pu ps by (elim disjE) simp_all
    then have n: "?V \<noteq> []"
      by (rule ne)
    have "isolation_alert ?V \<in> set (alerts (snd (mon_checkTenantIsolation e s)))"
      using n by (simp add: al)
    then show "fst (mon_checkTenantIsolation e s) \<noteq> []
        \<and> isolation_alert (fst (mon_checkTenantIsolation e s))
            \<in> set (alerts (snd (mon_checkTenantIsolation e s)))
        \<and> fst (runFullHealthCheck e s) \<noteq> Inr True
        \<and> monitor_main e = 1"
      using n run [OF n] main [OF n] by (simp only: v) simp
  qed
  have a4: "query_error e ActiveCountQ = None \<and> query_error e OrphanQ = None
         \<and> active_tenants (db e) \<noteq> [] \<longrightarrow>
        checkDatabaseHealth e p = (True, p\<lparr>calls := calls p @ [Query ActiveCountQ, Query OrphanQ]\<rparr>)"
    by (simp add: checkDatabaseHealth_eq)
  show ?thesis
    by (intro conjI) (rule a1 a2 a3 a4)+
qed

text \<open>The theorem on a row source with one orphaned user row.\<close>

lemma show_nat_1: "show_nat (Suc 0) = ''1''"
  by (simp add: show_nat.simps digit_char_def)

lemma db_orphan_count:
  "orphan_count (tenants db_orphan) (map tu_tenant_id (tenant_users db_orphan)) = 1"
  by (simp add: orphan_count_eq db_orphan_def user_of_def tenant_acme_def)

theorem orphans_reported_by_monitor_witness:
  "query_error (env_ok db_orphan) LeakageQ = None
   \<and> query_error (env_ok db_orphan) OrphansQ = None
   \<and> user_of 3 99 \<in> set (tenant_users db_orphan)
   \<and> ''1 orphaned records in tenant_users table''
       \<in> set (fst (mon_checkTenantIsolation (env_ok db_orphan) new_TenantHealthMonitor))
   \<and> monitor_main (env_ok db_orphan) = 1
   \<and> checkDatabaseHealth (env_ok db_orphan) new_ProductionTenantHealth =
       (True, \<lparr>issues = [], calls = [Query ActiveCountQ, Query OrphanQ]\<rparr>)"
proof -
  have q: "query_error (env_ok db_orphan) LeakageQ = None"
    "query_error (env_ok db_orphan) OrphansQ = None"
    "query_error (env_ok db_orphan) ActiveCountQ = None"
    "query_error (env_ok db_orphan) OrphanQ = None"
    by (simp_all add: env_ok_def)
  have d: "db (env_ok db_orphan) = db_orphan"
    by (simp add: env_ok_def)
  have m: "user_of 3 99 \<in> set (tenant_users db_orphan)"
    by (simp add: db_orphan_def)
  have "\<forall>t \<in> set (tenants db_orphan). tn_id t \<noteq> tu_tenant_id (user_of 3 99)"
    by (simp add: db_orphan_def user_of_def tenant_acme_def)
  then have o: "\<exists>c \<in> set (tenant_users db_orphan).
      \<forall>t \<in> set (tenants db_orphan). tn_id t \<noteq> tu_tenant_id c"
    using m by blast
  have a: "active_tenants db_orphan \<noteq> []"
    by (simp add: acme_active)
  note t = orphans_reported_by_monitor [OF q(1) q(2), of new_TenantHealthMonitor
      new_ProductionTenantHealth, unfolded d]
  have "''1 orphaned records in tenant_users table''
       \<in> set (fst (mon_checkTenantIsolation (env_ok db_orphan) new_TenantHealthMonitor))"
    using t o by (simp add: db_orphan_count show_nat_1)
  moreover have "monitor_main (env_ok db_orphan) = 1"
    using t o by simp
  moreover have "checkDatabaseHealth (env_ok db_orphan) new_ProductionTenantHealth =
       (True, \<lparr>issues = [], calls = [Query ActiveCountQ, Query OrphanQ]\<rparr>)"
    using t q a by (simp add: new_ProductionTenantHealth_def)
  ultimately show ?thesis
    using q m by simp
qed

text \<open>
  C4 as stated fails on the production script: with one orphaned row in \<^verbatim>\<open>tenant_users\<close>
  the run returns \<open>productionReady = true\<close> and exits with 0.
\<close>

theorem production_ignores_orphans_counterexample:
  "orphan_count (tenants db_orphan) (map tu_tenant_id (tenant_users db_orphan)) = 1
   \<and> fst (runProductionHealthCheck (env_ok db_orphan) new_ProductionTenantHealth) = Inr True
   \<and> production_main (env_ok db_orphan) = 0"
  by (simp add: db_orphan_count orphan_run_ready production_main_def)

section \<open>Rounding in float8\<close>

text \<open>
  Rounding to binary64 changes a value by at most the fraction \<open>2 ^ - 53\<close> of it, and the
  cast to \<^verbatim>\<open>INTEGER\<close> by at most a half. A percentage that fits \<^verbatim>\<open>INTEGER\<close> is therefore
  within \<open>1 / 2 + 2 ^ - 19\<close> of the exact quotient.
\<close>

lemma rint_error: "\<bar>of_int (rint x) - x\<bar> \<le> 1 / 2"
proof -
  have "of_int \<lfloor>x\<rfloor> \<le> x" "x < of_int \<lfloor>x\<rfloor> + 1"
    by linarith+
  then show ?thesis
    by (auto simp add: rint_def Let_def)
qed

lemma binary_exponent_le:
  assumes "0 < x"
  shows "power_int 2 (binary_exponent x) \<le> x"
proof (cases "1 \<le> x")
  case True
  then have f: "0 < \<lfloor>x\<rfloor>"
    by linarith
  have e: "0 \<le> bitlen \<lfloor>x\<rfloor> - 1"
    using f bitlen_eq_zero_iff [of "\<lfloor>x\<rfloor>"] bitlen_nonneg [of "\<lfloor>x\<rfloor>"] by linarith
  have "(2::int) ^ nat (bitlen \<lfloor>x\<rfloor> - 1) \<le> \<lfloor>x\<rfloor>"
    using bitlen_bounds [OF f] by blast
  then have "(of_int ((2::int) ^ nat (bitlen \<lfloor>x\<rfloor> - 1)) :: rat) \<le> of_int \<lfloor>x\<rfloor>"
    by (simp only: of_int_le_iff)
  also have "\<dots> \<le> x"
    by linarith
  finally have "(2::rat) ^ nat (bitlen \<lfloor>x\<rfloor> - 1) \<le> x"
    by simp
  then show ?thesis
    using True e by (simp add: binary_exponent_def power_int_def)
next
  case False
  let ?k = "\<lceil>1 / x\<rceil>"
  let ?n = "bitlen (?k - 1)"
  have x1: "1 < 1 / x"
    using False assms by (simp add: field_simps)
  then have k: "0 < ?k - 1"
    by linarith
  have n: "0 < ?n"
    using k bitlen_eq_zero_iff [of "?k - 1"] bitlen_nonneg [of "?k - 1"] by linarith
  have "?k - 1 < 2 ^ nat ?n"
    using bitlen_bounds [OF k] by blast
  then have "?k \<le> 2 ^ nat ?n"
    by linarith
  then have "(of_int ?k :: rat) \<le> of_int (2 ^ nat ?n)"
    by (simp only: of_int_le_iff)
  moreover have "1 / x \<le> of_int ?k"
    by linarith
  ultimately have "1 / x \<le> (of_int (2 ^ nat ?n) :: rat)"
    by (rule order_trans [rotated])
  then have "1 / x \<le> 2 ^ nat ?n"
    by simp
  then have "1 \<le> 2 ^ nat ?n * x"
    using assms by (simp add: field_simps)
  then have "inverse 2 ^ nat ?n \<le> x"
    by (simp add: field_simps power_inverse [symmetric] del: power_inverse)
  then show ?thesis
    using False n by (simp add: binary_exponent_def power_int_def)
qed

lemma float8_error: "\<bar>float8 x - x\<bar> \<le> \<bar>x\<bar> / 2 ^ 53"
proof (cases "x = 0")
  case True
  then show ?thesis
    by (simp add: float8_def)
next
  case False
  let ?e = "binary_exponent \<bar>x\<bar>"
  let ?u = "power_int (2::rat) (?e - 52)"
  have u: "0 < ?u"
    by simp
  have "?u = power_int 2 ?e / power_int 2 52"
    by (rule power_int_diff) simp
  also have "\<dots> \<le> \<bar>x\<bar> / power_int 2 52"
    using binary_exponent_le [of "\<bar>x\<bar>"] False by (simp add: divide_right_mono)
  finally have ux: "?u \<le> \<bar>x\<bar> / 2 ^ 52"
    by (simp add: power_int_def)
  have "float8 x - x = (of_int (rint (x / ?u)) - x / ?u) * ?u"
    using False u by (simp add: float8_def Let_def algebra_simps)
  then have "\<bar>float8 x - x\<bar> = \<bar>of_int (rint (x / ?u)) - x / ?u\<bar> * ?u"
    using u by (simp add: abs_mult)
  also have "\<dots> \<le> 1 / 2 * ?u"
    using rint_error [of "x / ?u"] u by (intro mult_right_mono) simp_all
  also have "\<dots> \<le> 1 / 2 * (\<bar>x\<bar> / 2 ^ 52)"
    using ux by simp
  finally show ?thesis
    by simp
qed

lemma three_roundings_sum:
  fixes a d y t :: rat
  assumes "a \<le> 100 * y / 9007199254740992" and "d \<le> t * (5 / 2) / 9007199254740992"
    and "y \<le> t + t * (5 / 2) / 9007199254740992" and "0 \<le> t"
  shows "a + 100 * d \<le> 100 * t * 4 / 9007199254740992"
  using assms by linarith

lemma three_roundings:
  fixes t q y2 y3 :: rat
  assumes "\<bar>q - t\<bar> \<le> \<bar>t\<bar> / 9007199254740992"
    and "\<bar>y2 - q\<bar> \<le> \<bar>q\<bar> / 9007199254740992"
    and "\<bar>y3 - y2 * 100\<bar> \<le> \<bar>y2 * 100\<bar> / 9007199254740992"
  shows "\<bar>y3 - t * 100\<bar> \<le> \<bar>t * 100\<bar> / 2251799813685248"
proof -
  have b1: "\<bar>q\<bar> \<le> \<bar>t\<bar> + \<bar>t\<bar> / 9007199254740992"
    using assms(1) by linarith
  have d2: "\<bar>y2 - t\<bar> \<le> \<bar>t\<bar> * (5 / 2) / 9007199254740992"
    using assms(1) assms(2) b1 by linarith
  have b2: "\<bar>y2\<bar> \<le> \<bar>t\<bar> + \<bar>t\<bar> * (5 / 2) / 9007199254740992"
    using d2 by linarith
  have m: "\<bar>y2 * 100\<bar> = 100 * \<bar>y2\<bar>" "\<bar>t * 100\<bar> = 100 * \<bar>t\<bar>"
    by (simp_all add: abs_mult)
  have "y3 - t * 100 = (y3 - y2 * 100) + 100 * (y2 - t)"
    by simp
  then have "\<bar>y3 - t * 100\<bar> \<le> \<bar>y3 - y2 * 100\<bar> + \<bar>100 * (y2 - t)\<bar>"
    by (simp only: abs_triangle_ineq)
  also have "\<bar>100 * (y2 - t)\<bar> = 100 * \<bar>y2 - t\<bar>"
    by (subst abs_mult) simp
  also have "\<bar>y3 - y2 * 100\<bar> + 100 * \<bar>y2 - t\<bar> \<le> 100 * \<bar>t\<bar> * 4 / 9007199254740992"
    using assms(3) [unfolded m] d2 b2 abs_ge_zero by (rule three_roundings_sum)
  finally show ?thesis
    unfolding m by simp
qed

lemma float8_product_error:
  fixes c m :: rat
  assumes "m \<noteq> 0"
  shows "\<bar>float8 (float8 (float8 c / m) * 100) - c / m * 100\<bar> \<le> \<bar>c / m * 100\<bar> / 2 ^ 51"
proof -
  let ?y1 = "float8 c"
  let ?y2 = "float8 (?y1 / m)"
  let ?y3 = "float8 (?y2 * 100)"
  have a1: "\<bar>?y1 - c\<bar> \<le> \<bar>c\<bar> / 2 ^ 53"
    by (rule float8_error)
  have "\<bar>?y1 / m - c / m\<bar> = \<bar>?y1 - c\<bar> / \<bar>m\<bar>"
    by (simp add: diff_divide_distrib [symmetric])
  also have "\<dots> \<le> (\<bar>c\<bar> / 2 ^ 53) / \<bar>m\<bar>"
    using a1 by (rule divide_right_mono) simp
  finally have d1: "\<bar>?y1 / m - c / m\<bar> \<le> \<bar>c / m\<bar> / 9007199254740992"
    by simp
  have a2: "\<bar>?y2 - ?y1 / m\<bar> \<le> \<bar>?y1 / m\<bar> / 9007199254740992"
    using float8_error [of "?y1 / m"] by simp
  have a3: "\<bar>?y3 - ?y2 * 100\<bar> \<le> \<bar>?y2 * 100\<bar> / 9007199254740992"
    using float8_error [of "?y2 * 100"] by simp
  have "\<bar>?y3 - c / m * 100\<bar> \<le> \<bar>c / m * 100\<bar> / 2251799813685248"
    using d1 a2 a3 by (rule three_roundings)
  then show ?thesis
    by simp
qed

lemma range_bound:
  fixes p y x :: rat
  assumes "\<bar>p - y\<bar> \<le> 1 / 2" and "\<bar>y - x\<bar> \<le> \<bar>x\<bar> / 2251799813685248"
    and "- 2147483648 \<le> p" and "p < 2147483648"
  shows "\<bar>p - x\<bar> \<le> 1 / 2 + 1 / 524288"
proof -
  have "\<bar>x\<bar> \<le> 4294967296"
    using assms by linarith
  then show ?thesis
    using assms(1) assms(2) by linarith
qed

lemma float8_percent_error:
  assumes "m \<noteq> 0" and "- 2147483648 \<le> float8_percent c m" and "float8_percent c m < 2147483648"
  shows "\<bar>of_int (float8_percent c m) - (of_int c :: rat) / of_int m * 100\<bar> \<le> 1 / 2 + 1 / 2 ^ 19"
proof -
  let ?x = "(of_int c :: rat) / of_int m * 100"
  let ?y = "float8 (float8 (float8 (of_int c) / of_int m) * 100)"
  let ?p = "float8_percent c m"
  have p: "?p = rint ?y"
    by (simp add: float8_percent_def)
  have r: "\<bar>of_int ?p - ?y\<bar> \<le> 1 / 2"
    unfolding p by (rule rint_error)
  have e: "\<bar>?y - ?x\<bar> \<le> \<bar>?x\<bar> / 2251799813685248"
    using float8_product_error [of "of_int m" "of_int c"] assms(1) by simp
  have b: "(- 2147483648 :: rat) \<le> of_int ?p" "(of_int ?p :: rat) < 2147483648"
    using assms(2) assms(3) by linarith+
  have "\<bar>of_int ?p - ?x\<bar> \<le> 1 / 2 + 1 / 524288"
    using r e b by (rule range_bound)
  then show ?thesis
    by simp
qed

lemma near_round:
  fixes x :: rat
  assumes "\<bar>of_int p - x\<bar> \<le> 1 / 2 + e" and "e < 1 / 2"
    and "e < \<bar>frac x - 1 / 2\<bar>"
  shows "p = round x"
proof -
  have f: "of_int \<lfloor>x\<rfloor> \<le> x" "x < of_int \<lfloor>x\<rfloor> + 1" "frac x = x - of_int \<lfloor>x\<rfloor>"
    by (linarith, linarith, simp add: frac_def)
  have "\<bar>x - of_int p\<bar> < 1 / 2"
  proof (rule ccontr)
    assume "\<not> \<bar>x - of_int p\<bar> < 1 / 2"
    then consider "1 / 2 \<le> x - of_int p" | "1 / 2 \<le> of_int p - x"
      by linarith
    then show False
    proof cases
      case 1
      then have "of_int p \<le> x" "x < of_int p + 1"
        using assms(1) assms(2) by linarith+
      then have "\<lfloor>x\<rfloor> = p"
        by (rule floor_unique)
      then show False
        using 1 assms f by linarith
    next
      case 2
      have q: "(of_int (p - 1) :: rat) = of_int p - 1"
        by simp
      have "of_int (p - 1) \<le> x" "x < of_int (p - 1) + 1"
        unfolding q using 2 assms(1) assms(2) by linarith+
      then have "\<lfloor>x\<rfloor> = p - 1"
        by (rule floor_unique)
      then have "of_int \<lfloor>x\<rfloor> = (of_int p :: rat) - 1"
        by simp
      then show False
        using 2 assms f by linarith
    qed
  qed
  then show ?thesis
    by (simp add: round_unique')
qed

lemma utilization_reported:
  assumes "utilization float8_percent c m = Inr p" and "m \<noteq> - 1"
  shows "\<bar>of_int p - (of_int c :: rat) / of_int m * 100\<bar> \<le> 1 / 2 + 1 / 2 ^ 19"
    and "1 / 2 ^ 19 < \<bar>frac ((of_int c :: rat) / of_int m * 100) - 1 / 2\<bar>
      \<Longrightarrow> p = round ((of_int c :: rat) / of_int m * 100)"
proof -
  have m: "m \<noteq> 0"
    using assms by (auto simp add: utilization_def split: if_splits)
  have r: "- 2147483648 \<le> float8_percent c m" "float8_percent c m < 2147483648"
    "p = float8_percent c m"
    using assms by (auto simp add: utilization_def split: if_splits)
  show b: "\<bar>of_int p - (of_int c :: rat) / of_int m * 100\<bar> \<le> 1 / 2 + 1 / 2 ^ 19"
    unfolding r(3) using m r(1) r(2) by (rule float8_percent_error)
  show "p = round ((of_int c :: rat) / of_int m * 100)"
    if "1 / 2 ^ 19 < \<bar>frac ((of_int c :: rat) / of_int m * 100) - 1 / 2\<bar>"
    using b _ that by (rule near_round) simp
qed

section \<open>Utilization percentage\<close>

text \<open>
  C7, as amended. For a dimension whose limit is not \<open>-1\<close> and for which the query returns
  a row (the limit is not \<open>0\<close> and the percentage fits \<^verbatim>\<open>INTEGER\<close>), the utilization
  reported is \<open>count / limit * 100\<close> rounded to an integer in float8 arithmetic: it lies
  within \<open>1 / 2 + 2 ^ - 19\<close> of \<open>count / limit * 100\<close>, and it is
  \<open>round (count / limit * 100)\<close> whenever \<open>count / limit * 100\<close> is farther than \<open>2 ^ - 19\<close>
  from the middle between two integers. It is printed as it is, and the limit is printed
  in decimal. For the limit \<open>-1\<close> the utilization is reported and printed as \<open>0\<close>, and the
  limit is printed as the unlimited symbol.
\<close>

theorem utilization_percentage:
  assumes "perf_select float8_percent m = Inr row"
  shows "(m_max_users m = - 1 \<longrightarrow>
           pr_user_utilization row = 0 \<and> userUtil row = 0 \<and> userDisplay row = infinity_symbol)
     \<and> (m_max_users m \<noteq> - 1 \<longrightarrow>
           \<bar>of_int (pr_user_utilization row)
              - (of_int (int (m_user_count m)) :: rat) / of_int (m_max_users m) * 100\<bar>
             \<le> 1 / 2 + 1 / 2 ^ 19
           \<and> (1 / 2 ^ 19
                 < \<bar>frac ((of_int (int (m_user_count m)) :: rat) / of_int (m_max_users m) * 100) - 1 / 2\<bar>
               \<longrightarrow> pr_user_utilization row
                 = round ((of_int (int (m_user_count m)) :: rat) / of_int (m_max_users m) * 100))
           \<and> userUtil row = pr_user_utilization row
           \<and> userDisplay row = show_int (m_max_users m))
     \<and> (m_max_api_calls m = - 1 \<longrightarrow>
           pr_api_utilization row = 0 \<and> apiUtil row = 0 \<and> apiDisplay row = infinity_symbol)
     \<and> (m_max_api_calls m \<noteq> - 1 \<longrightarrow>
           \<bar>of_int (pr_api_utilization row)
              - (of_int (m_api_calls_count m) :: rat) / of_int (m_max_api_calls m) * 100\<bar>
             \<le> 1 / 2 + 1 / 2 ^ 19
           \<and> (1 / 2 ^ 19
                 < \<bar>frac ((of_int (m_api_calls_count m) :: rat) / of_int (m_max_api_calls m) * 100) - 1 / 2\<bar>
               \<longrightarrow> pr_api_utilization row
                 = round ((of_int (m_api_calls_count m) :: rat) / of_int (m_max_api_calls m) * 100))
           \<and> apiUtil row = pr_api_utilization row
           \<and> apiDisplay row = show_int (m_max_api_calls m))"
proof -
  obtain u where u: "utilization float8_percent (int (m_user_count m)) (m_max_users m) = Inr u"
    using assms by (cases "utilization float8_percent (int (m_user_count m)) (m_max_users m)")
      (simp_all add: perf_select_def)
  obtain v where v: "utilization float8_percent (m_api_calls_count m) (m_max_api_calls m) = Inr v"
    using assms u by (cases "utilization float8_percent (m_api_calls_count m) (m_max_api_calls m)")
      (simp_all add: perf_select_def)
  have row: "pr_user_utilization row = u" "pr_api_utilization row = v"
    "pr_max_users row = m_max_users m" "pr_max_api_calls row = m_max_api_calls m"
    using assms u v by (auto simp add: perf_select_def)
  have u0: "u = 0" if "m_max_users m = - 1"
    using u that by (simp add: utilization_def)
  have v0: "v = 0" if "m_max_api_calls m = - 1"
    using v that by (simp add: utilization_def)
  have d: "userUtil row = u" "apiUtil row = v"
    by (simp_all add: userUtil_def apiUtil_def row)
  have a1: "m_max_users m = - 1 \<longrightarrow>
           pr_user_utilization row = 0 \<and> userUtil row = 0 \<and> userDisplay row = infinity_symbol"
    using u0 by (simp add: row d userDisplay_def)
  have a3: "m_max_api_calls m = - 1 \<longrightarrow>
           pr_api_utilization row = 0 \<and> apiUtil row = 0 \<and> apiDisplay row = infinity_symbol"
    using v0 by (simp add: row d apiDisplay_def)
  have a2: "m_max_users m \<noteq> - 1 \<longrightarrow>
           \<bar>of_int (pr_user_utilization row)
              - (of_int (int (m_user_count m)) :: rat) / of_int (m_max_users m) * 100\<bar>
             \<le> 1 / 2 + 1 / 2 ^ 19
           \<and> (1 / 2 ^ 19
                 < \<bar>frac ((of_int (int (m_user_count m)) :: rat) / of_int (m_max_users m) * 100) - 1 / 2\<bar>
               \<longrightarrow> pr_user_utilization row
                 = round ((of_int (int (m_user_count m)) :: rat) / of_int (m_max_users m) * 100))
           \<and> userUtil row = pr_user_utilization row
           \<and> userDisplay row = show_int (m_max_users m)"
  proof
    assume n: "m_max_users m \<noteq> - 1"
    show "\<bar>of_int (pr_user_utilization row)
              - (of_int (int (m_user_count m)) :: rat) / of_int (m_max_users m) * 100\<bar>
             \<le> 1 / 2 + 1 / 2 ^ 19
           \<and> (1 / 2 ^ 19
                 < \<bar>frac ((of_int (int (m_user_count m)) :: rat) / of_int (m_max_users m) * 100) - 1 / 2\<bar>
               \<longrightarrow> pr_user_utilization row
                 = round ((of_int (int (m_user_count m)) :: rat) / of_int (m_max_users m) * 100))
           \<and> userUtil row = pr_user_utilization row
           \<and> userDisplay row = show_int (m_max_users m)"
      unfolding row(1) d
      using utilization_reported [OF u n] n by (simp add: userDisplay_def row)
  qed
  have a4: "m_max_api_calls m \<noteq> - 1 \<longrightarrow>
           \<bar>of_int (pr_api_utilization row)
              - (of_int (m_api_calls_count m) :: rat) / of_int (m_max_api_calls m) * 100\<bar>
             \<le> 1 / 2 + 1 / 2 ^ 19
           \<and> (1 / 2 ^ 19
                 < \<bar>frac ((of_int (m_api_calls_count m) :: rat) / of_int (m_max_api_calls m) * 100) - 1 / 2\<bar>
               \<longrightarrow> pr_api_utilization row
                 = round ((of_int (m_api_calls_count m) :: rat) / of_int (m_max_api_calls m) * 100))
           \<and> apiUtil row = pr_api_utilization row
           \<and> apiDisplay row = show_int (m_max_api_calls m)"
  proof
    assume n: "m_max_api_calls m \<noteq> - 1"
    show "\<bar>of_int (pr_api_utilization row)
              - (of_int (m_api_calls_count m) :: rat) / of_int (m_max_api_calls m) * 100\<bar>
             \<le> 1 / 2 + 1 / 2 ^ 19
           \<and> (1 / 2 ^ 19
                 < \<bar>frac ((of_int (m_api_calls_count m) :: rat) / of_int (m_max_api_calls m) * 100) - 1 / 2\<bar>
               \<longrightarrow> pr_api_utilization row
                 = round ((of_int (m_api_calls_count m) :: rat) / of_int (m_max_api_calls m) * 100))
           \<and> apiUtil row = pr_api_utilization row
           \<and> apiDisplay row = show_int (m_max_api_calls m)"
      unfolding row(2) d
      using utilization_reported [OF v n] n by (simp add: apiDisplay_def row)
  qed
  show ?thesis
    by (intro conjI) (rule a1 a2 a3 a4)+
qed

text \<open>With a limit of \<open>0\<close> the division raises an error, and the query returns no row.\<close>

lemma zero_limit_fails_query:
  "utilization f8 c 0 = Inl ''division by zero''"
  by (simp add: utilization_def)

lemma globex_metrics:
  "tenant_metrics db_unlimited tenant_globex =
     \<lparr>m_name = ''globex'', m_plan = ''enterprise'', m_user_count = 1, m_api_calls_count = 500,
      m_max_users = - 1, m_max_api_calls = - 1\<rparr>"
  by (simp add: tenant_metrics_def db_unlimited_def tenant_globex_def user_of_def left_join_def
      coalesce_limit_def Let_def)

lemma initech_metrics:
  "tenant_metrics db_rounding tenant_initech =
     \<lparr>m_name = ''initech'', m_plan = ''starter'', m_user_count = 1, m_api_calls_count = 23,
      m_max_users = 3, m_max_api_calls = 40\<rparr>"
  by (simp add: tenant_metrics_def db_rounding_def tenant_initech_def user_of_def left_join_def
      coalesce_limit_def Let_def)

lemma float8_percent_1_3: "float8_percent 1 3 = 33"
  by code_simp

lemma float8_percent_23_40: "float8_percent 23 40 = 57"
  by code_simp

lemma initech_row:
  "perf_select float8_percent (tenant_metrics db_rounding tenant_initech) =
     Inr \<lparr>pr_name = ''initech'', pr_plan = ''starter'', pr_user_count = 1,
          pr_api_calls_count = 23, pr_max_users = 3, pr_max_api_calls = 40,
          pr_user_utilization = 33, pr_api_utilization = 57,
          pr_user_status = OK, pr_api_status = OK\<rparr>"
  by (simp add: initech_metrics perf_select_def utilization_def float8_percent_1_3
      float8_percent_23_40 perf_status_def)

text \<open>
  The theorem on a tenant with 1 of 3 users (33, which is \<open>round (100 / 3)\<close>) and 23 of 40
  API calls, and on an unlimited tenant.
\<close>

theorem utilization_percentage_witness:
  "(\<exists>row. perf_select float8_percent (tenant_metrics db_rounding tenant_initech) = Inr row
      \<and> m_max_users (tenant_metrics db_rounding tenant_initech) = 3
      \<and> m_user_count (tenant_metrics db_rounding tenant_initech) = 1
      \<and> pr_user_utilization row = 33
      \<and> pr_user_utilization row = round ((1::rat) / 3 * 100)
      \<and> userUtil row = 33 \<and> userDisplay row = show_int 3
      \<and> \<bar>of_int (pr_api_utilization row) - (23::rat) / 40 * 100\<bar> \<le> 1 / 2 + 1 / 2 ^ 19)
   \<and> (\<exists>row. perf_select float8_percent (tenant_metrics db_unlimited tenant_globex) = Inr row
      \<and> m_max_users (tenant_metrics db_unlimited tenant_globex) = - 1
      \<and> pr_user_utilization row = 0 \<and> userUtil row = 0 \<and> userDisplay row = infinity_symbol)"
proof -
  obtain r1 where r1: "perf_select float8_percent (tenant_metrics db_rounding tenant_initech) = Inr r1"
    using initech_row by blast
  obtain r2 where r2: "perf_select float8_percent (tenant_metrics db_unlimited tenant_globex) = Inr r2"
    using globex_row by blast
  have u: "pr_user_utilization r1 = 33"
    using r1 initech_row by auto
  have f: "(1 / 2 ^ 19 :: rat) < \<bar>frac ((1::rat) / 3 * 100) - 1 / 2\<bar>"
    by code_simp
  have t1: "\<bar>of_int (pr_api_utilization r1) - (23::rat) / 40 * 100\<bar> \<le> 1 / 2 + 1 / 2 ^ 19"
    "pr_user_utilization r1 = round ((1::rat) / 3 * 100)"
    "userUtil r1 = pr_user_utilization r1" "userDisplay r1 = show_int 3"
    using utilization_percentage [OF r1] f by (simp_all add: initech_metrics)
  have t2: "pr_user_utilization r2 = 0 \<and> userUtil r2 = 0 \<and> userDisplay r2 = infinity_symbol"
    using utilization_percentage [OF r2] by (simp add: globex_metrics)
  show ?thesis
    using r1 r2 u t1 t2 by (auto simp add: initech_metrics globex_metrics)
qed

text \<open>
  C7 as stated fails twice. For the limit \<open>-1\<close> the percentage is not undefined but the
  number \<open>0\<close>: for 500 API calls under an unlimited limit the column \<^verbatim>\<open>api_utilization\<close> is
  \<open>0\<close>, and \<open>0\<close> is what the line of the tenant prints. For a finite limit the percentage
  need not be \<open>round (count / limit * 100)\<close>: 23 of 40 is 57.5, which rounds to 58, but
  the float8 product lies just below 57.5 and the query reports 57.
\<close>

theorem unlimited_utilization_counterexample:
  "(case perf_rows float8_percent db_unlimited of
      Inl message \<Rightarrow> False
    | Inr rows \<Rightarrow>
        map (\<lambda>r. (pr_api_calls_count r, pr_max_api_calls r, pr_api_utilization r, apiUtil r)) rows
          = [(500, - 1, 0, 0)])
   \<and> (case perf_rows float8_percent db_rounding of
      Inl message \<Rightarrow> False
    | Inr rows \<Rightarrow>
        map (\<lambda>r. (pr_api_calls_count r, pr_max_api_calls r, pr_api_utilization r, apiUtil r)) rows
          = [(23, 40, 57, 57)])
   \<and> round ((23::rat) / 40 * 100) = 58"
proof -
  have a: "active_tenants db_unlimited = [tenant_globex]"
    by (simp add: active_tenants_def db_unlimited_def tenant_globex_def)
  have b: "active_tenants db_rounding = [tenant_initech]"
    by (simp add: active_tenants_def db_rounding_def tenant_initech_def)
  have c: "round ((23::rat) / 40 * 100) = 58"
    by code_simp
  have p1: "perf_rows float8_percent db_unlimited =
      Inr [\<lparr>pr_name = ''globex'', pr_plan = ''enterprise'', pr_user_count = 1,
            pr_api_calls_count = 500, pr_max_users = - 1, pr_max_api_calls = - 1,
            pr_user_utilization = 0, pr_api_utilization = 0,
            pr_user_status = UNLIMITED, pr_api_status = UNLIMITED\<rparr>]"
    by (simp add: perf_rows_def a globex_metrics perf_select_def utilization_def perf_status_def)
  have p2: "perf_rows float8_percent db_rounding =
      Inr [\<lparr>pr_name = ''initech'', pr_plan = ''starter'', pr_user_count = 1,
            pr_api_calls_count = 23, pr_max_users = 3, pr_max_api_calls = 40,
            pr_user_utilization = 33, pr_api_utilization = 57,
            pr_user_status = OK, pr_api_status = OK\<rparr>]"
    by (simp add: perf_rows_def b initech_row)
  have d: "(case perf_rows float8_percent db_unlimited of
      Inl message \<Rightarrow> False
    | Inr rows \<Rightarrow>
        map (\<lambda>r. (pr_api_calls_count r, pr_max_api_calls r, pr_api_utilization r, apiUtil r)) rows
          = [(500, - 1, 0, 0)])"
    by (simp add: p1 apiUtil_def)
  have e: "(case perf_rows float8_percent db_rounding of
      Inl message \<Rightarrow> False
    | Inr rows \<Rightarrow>
        map (\<lambda>r. (pr_api_calls_count r, pr_max_api_calls r, pr_api_utilization r, apiUtil r)) rows
          = [(23, 40, 57, 57)])"
    by (simp add: p2 apiUtil_def)
  show ?thesis
    by (intro conjI) (rule d e c)+
qed

section \<open>Exit codes\<close>










section \<open>Running twice\<close>



lemma monitor_rerun:
  "fst (runFullHealthCheck e (snd (runFullHealthCheck e s))) = fst (runFullHealthCheck e s)
   \<and> set (alerts (snd (runFullHealthCheck e (snd (runFullHealthCheck e s))))) =
     set (alerts (snd (runFullHealthCheck e s)))"
proof (cases "connect_error e")
  case None
  have a: "alerts (snd (runFullHealthCheck e s)) =
      alerts s @ alerts (snd (mon_checkTenantIsolation e new_TenantHealthMonitor))
        @ alerts (snd (checkTenantPerformance e new_TenantHealthMonitor)) @ service_alerts e" for s
    by (rule runFull_connected [OF None])
  have b: "set (alerts (snd (runFullHealthCheck e (snd (runFullHealthCheck e s))))) =
     set (alerts (snd (runFullHealthCheck e s)))"
    by (simp only: a [of "snd (runFullHealthCheck e s)"]) (auto simp add: a [of s])
  have c: "(filter (\<lambda>a. a_type a = CRITICAL)
        (alerts (snd (runFullHealthCheck e (snd (runFullHealthCheck e s))))) = []) =
      (filter (\<lambda>a. a_type a = CRITICAL) (alerts (snd (runFullHealthCheck e s))) = [])"
    by (simp only: filter_empty_conv b)
  show ?thesis
    using b c
    by (simp add: runFull_result [of e "snd (runFullHealthCheck e s)"] runFull_result [of e s]
        None split: option.split)
next
  case (Some m)
  then show ?thesis
    by (simp add: runFull_unreachable)
qed












end
